theory Spec2Isabelle
  imports Complex_Main "HOL-Library.Word" "HOL-Library.Multiset" "HOL-Library.Sublist"
begin

section \<open>JavaScript values used by the pipelines\<close>

text \<open>
  A JavaScript string is a sequence of UTF-16 code units, so a string is a list of
  16-bit words. \<open>ustr\<close> embeds an ASCII literal of the source.
\<close>

type_synonym jsstring = "16 word list"

definition ustr :: "string \<Rightarrow> jsstring" where
  "ustr s = map of_char s"

text \<open>
  \<open>String.prototype.trim\<close> removes white space and line terminators from both ends.
  These are the code units it removes (ECMAScript WhiteSpace and LineTerminator).
\<close>

definition isWhiteSpace :: "16 word \<Rightarrow> bool" where
  "isWhiteSpace c = (c \<in> set [0x09, 0x0A, 0x0B, 0x0C, 0x0D, 0x20, 0xA0, 0x1680,
      0x2000, 0x2001, 0x2002, 0x2003, 0x2004, 0x2005, 0x2006, 0x2007, 0x2008, 0x2009,
      0x200A, 0x2028, 0x2029, 0x202F, 0x205F, 0x3000, 0xFEFF])"

definition trim :: "jsstring \<Rightarrow> jsstring" where
  "trim s = rev (dropWhile isWhiteSpace (rev (dropWhile isWhiteSpace s)))"

text \<open>\<open>String(n)\<close> for a non-negative integer: its decimal digits.\<close>

function decimal :: "nat \<Rightarrow> jsstring" where
  "decimal n = (if n < 10 then [of_nat (48 + n)]
                else decimal (n div 10) @ [of_nat (48 + n mod 10)])"
  by pat_completeness auto
termination
  by (relation "measure id") auto

declare decimal.simps [simp del]

text \<open>\<open>s.padStart(n, '0')\<close>.\<close>

definition padStart0 :: "nat \<Rightarrow> jsstring \<Rightarrow> jsstring" where
  "padStart0 n s = replicate (n - length s) (0x30 :: 16 word) @ s"

text \<open>\<open>xs.join(sep)\<close> on a list of strings.\<close>

fun join :: "jsstring \<Rightarrow> jsstring list \<Rightarrow> jsstring" where
  "join sep [] = []"
| "join sep [x] = x"
| "join sep (x # y # ys) = x @ sep @ join sep (y # ys)"

text \<open>\<open>s.replace(pat, rep)\<close> with a string pattern: the first occurrence only.\<close>

fun replace_first :: "jsstring \<Rightarrow> jsstring \<Rightarrow> jsstring \<Rightarrow> jsstring" where
  "replace_first pat rep [] = (if pat = [] then rep else [])"
| "replace_first pat rep (c # cs) =
     (if take (length pat) (c # cs) = pat then rep @ drop (length pat) (c # cs)
      else c # replace_first pat rep cs)"

text \<open>
  A caught value is represented by its \<open>message\<close> property: \<open>Some m\<close> for an
  \<open>Error\<close> with message \<open>m\<close>, \<open>None\<close> for a value that has none (a rejected
  string, a \<open>ProgressEvent\<close>). \<open>message_or e d\<close> is \<open>e.message || d\<close>: the empty
  string is falsy.
\<close>

type_synonym thrown = "jsstring option"

definition message_or :: "thrown \<Rightarrow> jsstring \<Rightarrow> jsstring" where
  "message_or e d = (case e of None \<Rightarrow> d | Some m \<Rightarrow> if m = [] then d else m)"

text \<open>
  A JavaScript number as read from \<open>audio.duration\<close>: a finite value, an infinity
  (a stream of unknown length) or NaN. A comparison with NaN is false.
\<close>

datatype jsnumber = Finite real | PosInfinity | NegInfinity | NaN

fun js_ge :: "jsnumber \<Rightarrow> real \<Rightarrow> bool" where
  "js_ge (Finite x) c = (c \<le> x)"
| "js_ge PosInfinity c = True"
| "js_ge NegInfinity c = False"
| "js_ge NaN c = False"

fun js_gt :: "jsnumber \<Rightarrow> real \<Rightarrow> bool" where
  "js_gt (Finite x) c = (c < x)"
| "js_gt PosInfinity c = True"
| "js_gt NegInfinity c = False"
| "js_gt NaN c = False"

section \<open>types.ts and constants\<close>

text \<open>
  \<open>FilterType\<close> is the union of the members of \<open>FILTERS\<close> in \<open>constants.ts\<close>, the
  style tags. \<open>filterTag\<close> is the tag itself, the string that a template literal
  interpolates.
\<close>

datatype FilterType =
    Unspecified | Photorealistic | Anime | Cartoon | InkSketch | BlackAndWhite
  | ColorPop | WaterColor | RaphaeliteOilPainting | RaphaeliteDigitalArt
  | DarkFantasy | GameArt | ComicCover

fun filterTag :: "FilterType \<Rightarrow> jsstring" where
  "filterTag Unspecified = ustr ''unspecified''"
| "filterTag Photorealistic = ustr ''photorealistic''"
| "filterTag Anime = ustr ''Anime''"
| "filterTag Cartoon = ustr ''cartoon''"
| "filterTag InkSketch = ustr ''ink sketch''"
| "filterTag BlackAndWhite = ustr ''black & white''"
| "filterTag ColorPop = ustr ''color pop''"
| "filterTag WaterColor = ustr ''water color''"
| "filterTag RaphaeliteOilPainting = ustr ''raphaelite oil painting''"
| "filterTag RaphaeliteDigitalArt = ustr ''raphaelite-digital-art''"
| "filterTag DarkFantasy = ustr ''dark fantasy''"
| "filterTag GameArt = ustr ''game art''"
| "filterTag ComicCover = ustr ''comic cover''"

text \<open>The list \<open>FILTERS\<close>, in the order of the source.\<close>

definition FILTERS :: "FilterType list" where
  "FILTERS = [Unspecified, Photorealistic, Anime, Cartoon, InkSketch, BlackAndWhite, ColorPop,
     WaterColor, RaphaeliteOilPainting, DarkFantasy, GameArt, ComicCover, RaphaeliteDigitalArt]"

record ImageData =
  img_id :: nat
  base64 :: jsstring
  prompt :: jsstring

text \<open>
  \<open>StoryboardImage\<close> and \<open>LiveImageData\<close> both extend \<open>ImageData\<close> with a
  \<open>fileName\<close>; they are the same structural type.
\<close>

record StoryboardImage = ImageData +
  fileName :: jsstring

type_synonym LiveImageData = StoryboardImage

text \<open>
  The size limits of \<open>constants.ts\<close> (\<open>MAX_FILE_SIZE = 20 * 1024 * 1024\<close>,
  \<open>MAX_FILE_SIZE_MB = 20\<close>) and the minimum that \<open>VisualStoryboard\<close> declares.
\<close>

definition MAX_FILE_SIZE :: nat where
  "MAX_FILE_SIZE = 20 * 1024 * 1024"

definition MAX_FILE_SIZE_MB :: nat where
  "MAX_FILE_SIZE_MB = 20"

definition MIN_FILE_SIZE :: nat where
  "MIN_FILE_SIZE = 1 * 1024 * 1024"

section \<open>The generation service (geminiService)\<close>

text \<open>
  The request sent to \<open>ai.models.generateContent\<close>: the model name and the parts. The
  response carries what the service reads from it: the prompt feedback and the
  candidates with their parts, finish reason and safety ratings. An absent optional
  field is \<open>None\<close>.
\<close>

datatype part = TextPart jsstring | InlineDataPart jsstring jsstring

record request =
  model :: jsstring
  parts :: "part list"

record safetyRating =
  category :: jsstring
  probability :: jsstring

record promptFeedback =
  blockReason :: "jsstring option"
  pf_safetyRatings :: "safetyRating list option"

text \<open>A response part is represented by its \<open>inlineData.data\<close>, if it has one.\<close>

type_synonym rpart = "jsstring option"

record candidate =
  content_parts :: "rpart list option"
  finishReason :: "jsstring option"
  safetyRatings :: "safetyRating list option"

record response =
  promptFeedbackOf :: "promptFeedback option"
  candidates :: "candidate list option"

text \<open>The backend call: it throws or returns a response.\<close>

type_synonym backend = "request \<Rightarrow> thrown + response"

definition safetyDetails :: "safetyRating list option \<Rightarrow> jsstring option" where
  "safetyDetails rs = map_option (\<lambda>l. join (ustr '', '')
       (map (\<lambda>rating. replace_first (ustr ''HARM_CATEGORY_'') [] (category rating)
                        @ ustr '': '' @ probability rating) l)) rs"

definition withDetails :: "jsstring \<Rightarrow> jsstring option \<Rightarrow> jsstring" where
  "withDetails message details =
     (case details of None \<Rightarrow> message
      | Some d \<Rightarrow> if d = [] then message else message @ ustr '' Details: '' @ d)"

definition truthy :: "jsstring option \<Rightarrow> bool" where
  "truthy v = (case v of None \<Rightarrow> False | Some s \<Rightarrow> s \<noteq> [])"

definition createErrorMessage :: "response \<Rightarrow> jsstring \<Rightarrow> jsstring" where
  "createErrorMessage r defaultMessage =
     (let pf = promptFeedbackOf r;
          br = (case pf of None \<Rightarrow> None | Some f \<Rightarrow> blockReason f);
          c0 = (case candidates r of None \<Rightarrow> None | Some [] \<Rightarrow> None | Some (c # _) \<Rightarrow> Some c);
          fr = (case c0 of None \<Rightarrow> None | Some c \<Rightarrow> finishReason c)
      in if truthy br then
           withDetails
             (ustr ''Prompt was blocked. Reason: '' @ (case br of None \<Rightarrow> [] | Some b \<Rightarrow> b)
                @ ustr ''.'')
             (safetyDetails (case pf of None \<Rightarrow> None | Some f \<Rightarrow> pf_safetyRatings f))
         else if truthy fr \<and> fr \<noteq> Some (ustr ''STOP'') then
           withDetails
             (ustr ''Generation stopped unexpectedly. Reason: ''
                @ (case fr of None \<Rightarrow> [] | Some f \<Rightarrow> f) @ ustr ''.'')
             (safetyDetails (case c0 of None \<Rightarrow> None | Some c \<Rightarrow> safetyRatings c))
         else defaultMessage)"

fun filterStyles :: "FilterType \<Rightarrow> jsstring" where
  "filterStyles Unspecified = []"
| "filterStyles Photorealistic = ustr ''ultra photorealistic style, hyper-detailed, hyper ultra realistic, real vision, realistic texture, 8k''"
| "filterStyles Anime = ustr ''vibrant anime style, clean line art, cel shaded''"
| "filterStyles Cartoon = ustr ''charming cartoon style, bold outlines, simple shapes''"
| "filterStyles InkSketch = ustr ''black and white ink sketch style, cross-hatching, expressive lines''"
| "filterStyles BlackAndWhite = ustr ''monochromatic black and white, dramatic lighting, high contrast''"
| "filterStyles ColorPop = ustr ''mostly black and white with a single subject in vibrant color, selective color''"
| "filterStyles WaterColor = ustr ''soft watercolor painting style, blended colors, wet-on-wet technique''"
| "filterStyles RaphaeliteOilPainting = ustr ''Pre-Raphaelite Brotherhood oil painting style, rich colors, high detail, romantic themes''"
| "filterStyles RaphaeliteDigitalArt = ustr ''A beautiful blend of Pre-Raphaelite Brotherhood oil painting and vibrant Japanese Anime, creating a unique '' @ [0x22] @ ustr ''Raphaelite Digital Art'' @ [0x22] @ ustr '' look with rich colors, high detail, clean line art, and romantic themes.''"
| "filterStyles DarkFantasy = ustr ''dark fantasy digital art, epic scale, moody lighting, style of ArtStation and DeviantArt''"
| "filterStyles GameArt = ustr ''AAA game art style, Unreal Engine rendering, detailed character model, dynamic pose''"
| "filterStyles ComicCover = ustr ''dynamic comic book cover art, bold inks, graphic style, vibrant colors''"

definition formatPromptWithFilter :: "jsstring \<Rightarrow> FilterType \<Rightarrow> jsstring" where
  "formatPromptWithFilter p filt =
     (if filt = Unspecified then p
      else trim p @ ustr ''. Style: '' @ filterStyles filt @ ustr ''.'')"

text \<open>
  The loop over the parts of the first candidate: the first part whose inline data is
  present and non-empty.
\<close>

fun firstInlineData :: "rpart list \<Rightarrow> jsstring option" where
  "firstInlineData [] = None"
| "firstInlineData (p # ps) = (if truthy p then p else firstInlineData ps)"

definition imageModel :: jsstring where
  "imageModel = ustr ''gemini-2.5-flash-image-preview''"

text \<open>
  The body shared by \<open>generateImage\<close> and \<open>editImage\<close> after the request is built:
  every failure inside the \<open>try\<close> is rethrown by the \<open>catch\<close> as an \<open>Error\<close> whose
  message is the caught message, or the fallback when that is empty or absent.
\<close>

definition imageFromReply ::
  "thrown + response \<Rightarrow> jsstring \<Rightarrow> jsstring \<Rightarrow> jsstring \<Rightarrow> thrown + jsstring" where
  "imageFromReply reply noCandidate noImage fallback =
     (case reply of
        Inl e \<Rightarrow> Inl (Some (message_or e fallback))
      | Inr r \<Rightarrow>
          (case candidates r of
             None \<Rightarrow> Inl (Some (message_or (Some (createErrorMessage r noCandidate)) fallback))
           | Some [] \<Rightarrow> Inl (Some (message_or (Some (createErrorMessage r noCandidate)) fallback))
           | Some (c # _) \<Rightarrow>
               (case firstInlineData (case content_parts c of None \<Rightarrow> [] | Some ps \<Rightarrow> ps) of
                  Some d \<Rightarrow> Inr d
                | None \<Rightarrow> Inl (Some (message_or (Some (createErrorMessage r noImage)) fallback)))))"

definition generateImage :: "backend \<Rightarrow> jsstring \<Rightarrow> FilterType \<Rightarrow> thrown + jsstring" where
  "generateImage ai p filt =
     (let finalPrompt = formatPromptWithFilter p filt;
          textPart = TextPart finalPrompt
      in imageFromReply (ai \<lparr>model = imageModel, parts = [textPart]\<rparr>)
           (ustr ''No image was generated. The prompt may have been rejected.'')
           (ustr ''The model generated a response, but it did not contain image data.'')
           (ustr ''Failed to generate image due to an unknown error.''))"

definition editImage ::
  "backend \<Rightarrow> jsstring \<Rightarrow> jsstring \<Rightarrow> jsstring \<Rightarrow> FilterType \<Rightarrow> (jsstring \<times> jsstring) option
     \<Rightarrow> thrown + jsstring" where
  "editImage ai imageBase64 imageMimeType p filt remixImage =
     (let finalPrompt = formatPromptWithFilter p filt;
          imagePart = InlineDataPart imageBase64 imageMimeType;
          textPart = TextPart finalPrompt;
          ps = [imagePart, textPart] @
               (case remixImage of None \<Rightarrow> []
                | Some (b, m) \<Rightarrow> [InlineDataPart b m])
      in imageFromReply (ai \<lparr>model = imageModel, parts = ps\<rparr>)
           (ustr ''No image was generated from the edit.'')
           (ustr ''Edit did not produce an image.'')
           (ustr ''Failed to edit image. Please try a different edit prompt.''))"

section \<open>Files, blobs and the external collaborators\<close>

text \<open>
  A \<open>Blob\<close> is its bytes and its MIME type; a \<open>File\<close> is a \<open>Blob\<close> with a name.
  \<open>blob.size\<close> is the number of bytes.
\<close>

record Blob =
  bytes :: "8 word list"
  mimeType :: jsstring

record File = Blob +
  name :: jsstring

definition blobSize :: "'a Blob_scheme \<Rightarrow> nat" where
  "blobSize b = length (bytes b)"

text \<open>\<open>blob.slice(start, end, type)\<close> for \<open>0 \<le> start\<close> and \<open>0 \<le> end\<close>.\<close>

definition slice :: "'a Blob_scheme \<Rightarrow> nat \<Rightarrow> nat \<Rightarrow> jsstring \<Rightarrow> Blob" where
  "slice b start end' ty = \<lparr>bytes = take (end' - start) (drop start (bytes b)), mimeType = ty\<rparr>"

text \<open>
  What the components call and do not implement themselves. The exported functions of
  the service that return text (their instruction wording is not modelled), the
  backend behind \<open>generateImage\<close> and \<open>editImage\<close>, the reading of a file, of the
  duration of an audio file and of the clock. Each takes the number of calls made
  before it in the run, so that the same request may be answered differently at
  different times. \<open>getAudioDuration\<close> rejects with a string, which has no message.
\<close>

record services =
  fileToBase64 :: "nat \<Rightarrow> Blob \<Rightarrow> thrown + jsstring"
  getAudioDuration :: "nat \<Rightarrow> File \<Rightarrow> jsnumber option"
  generatePromptFromMusic :: "nat \<Rightarrow> jsstring \<Rightarrow> jsstring \<Rightarrow> jsstring \<Rightarrow> thrown + jsstring"
  transcribeAudioToPrompt :: "nat \<Rightarrow> jsstring \<Rightarrow> jsstring \<Rightarrow> jsstring \<Rightarrow> thrown + jsstring"
  generatePromptFromAudioSegment ::
    "nat \<Rightarrow> jsstring \<Rightarrow> jsstring \<Rightarrow> nat \<Rightarrow> nat \<Rightarrow> thrown + jsstring"
  generateStorySummaryFromAudio :: "nat \<Rightarrow> jsstring \<Rightarrow> jsstring \<Rightarrow> thrown + jsstring"
  generateContent :: "nat \<Rightarrow> backend"
  dateNow :: "nat \<Rightarrow> nat"

text \<open>The calls a run makes, in order. Reading a file or its duration is local.\<close>

datatype call =
    FileToBase64 Blob
  | GetAudioDuration
  | GeneratePromptFromMusic
  | TranscribeAudioToPrompt
  | GeneratePromptFromAudioSegment nat nat
  | GenerateStorySummaryFromAudio
  | GenerateImage jsstring FilterType
  | EditImage jsstring FilterType

fun isNetworkCall :: "call \<Rightarrow> bool" where
  "isNetworkCall (FileToBase64 _) = False"
| "isNetworkCall GetAudioDuration = False"
| "isNetworkCall _ = True"

section \<open>VisualStoryboard\<close>

datatype StoryboardState = SB_IDLE | SB_PROCESSING | SB_FINISHED | SB_ERROR

record storyboard =
  storyboardState :: StoryboardState
  sb_error :: "jsstring option"
  progressMessage :: jsstring
  images :: "StoryboardImage list"
  summary :: jsstring

definition resetState :: storyboard where
  "resetState = \<lparr>storyboardState = SB_IDLE, sb_error = None, progressMessage = [],
                  images = [], summary = []\<rparr>"

definition numSegments :: "jsnumber \<Rightarrow> nat" where
  "numSegments duration =
     (if js_ge duration (30 * 60) then 7
      else if js_gt duration (5 * 60) then 5
      else if js_gt duration (2 * 60) then 4
      else 3)"

definition makeSegments :: "File \<Rightarrow> nat \<Rightarrow> Blob list" where
  "makeSegments file n =
     (let segmentSize = blobSize file div n
      in map (\<lambda>i. let start = i * segmentSize;
                       end' = (if i = n - 1 then blobSize file else start + segmentSize)
                   in slice file start end' (mimeType file)) [0..<n])"

definition sceneFileName :: "nat \<Rightarrow> jsstring" where
  "sceneFileName segmentNumber =
     ustr ''scene_'' @ padStart0 2 (decimal segmentNumber) @ ustr ''.jpg''"

definition segmentProgress :: "nat \<Rightarrow> nat \<Rightarrow> jsstring \<Rightarrow> jsstring" where
  "segmentProgress segmentNumber n what =
     ustr ''['' @ decimal segmentNumber @ ustr ''/'' @ decimal n @ ustr ''] '' @ what"

text \<open>
  The second loop of \<open>processFile\<close>, over the segments from index \<open>i\<close> on, with the
  images generated so far. It stops at the first call that throws.
\<close>

fun processSegments ::
  "services \<Rightarrow> File \<Rightarrow> nat \<Rightarrow> Blob list \<Rightarrow> nat \<Rightarrow> StoryboardImage list
     \<Rightarrow> storyboard \<times> call list \<Rightarrow> (thrown + StoryboardImage list) \<times> storyboard \<times> call list" where
  "processSegments env file n [] i generatedImages (s, calls) = (Inr generatedImages, s, calls)"
| "processSegments env file n (segment # rest) i generatedImages (s, calls) =
     (let segmentNumber = i + 1;
          s1 = s\<lparr>progressMessage :=
                 segmentProgress segmentNumber n (ustr ''Analyzing audio segment...'')\<rparr>;
          calls1 = calls @ [FileToBase64 segment]
      in case fileToBase64 env (length calls) segment of
           Inl e \<Rightarrow> (Inl e, s1, calls1)
         | Inr audioBase64 \<Rightarrow>
             (let calls2 = calls1 @ [GeneratePromptFromAudioSegment segmentNumber n]
              in case generatePromptFromAudioSegment env (length calls1) audioBase64
                        (mimeType file) segmentNumber n of
                   Inl e \<Rightarrow> (Inl e, s1, calls2)
                 | Inr p \<Rightarrow>
                     (let s2 = s1\<lparr>progressMessage :=
                                 segmentProgress segmentNumber n (ustr ''Generating image...'')\<rparr>;
                          calls3 = calls2 @ [GenerateImage p RaphaeliteDigitalArt]
                      in case generateImage (generateContent env (length calls2)) p
                                RaphaeliteDigitalArt of
                           Inl e \<Rightarrow> (Inl e, s2, calls3)
                         | Inr imageBase64 \<Rightarrow>
                             (let newImage = \<lparr>img_id = dateNow env (length calls3) + i,
                                              base64 = imageBase64, prompt = p,
                                              fileName = sceneFileName segmentNumber\<rparr>;
                                  generatedImages' = generatedImages @ [newImage]
                              in processSegments env file n rest (i + 1) generatedImages'
                                   (s2\<lparr>images := generatedImages'\<rparr>, calls3)))))"

definition sb_catch :: "storyboard \<Rightarrow> thrown \<Rightarrow> storyboard" where
  "sb_catch s err =
     s\<lparr>sb_error := Some (message_or err (ustr ''An unknown error occurred during processing.'')),
       storyboardState := SB_ERROR\<rparr>"

definition processFile :: "services \<Rightarrow> File \<Rightarrow> storyboard \<times> call list" where
  "processFile env file =
     (let s0 = resetState
      in if blobSize file < MIN_FILE_SIZE then
           (s0\<lparr>sb_error := Some (ustr ''File is too small. Minimum size is 1MB.''),
               storyboardState := SB_ERROR\<rparr>, [])
         else if blobSize file > MAX_FILE_SIZE then
           (s0\<lparr>sb_error := Some (ustr ''File is too large. Maximum size is ''
                                     @ decimal MAX_FILE_SIZE_MB @ ustr ''MB.''),
               storyboardState := SB_ERROR\<rparr>, [])
         else
           (let s1 = s0\<lparr>storyboardState := SB_PROCESSING,
                        progressMessage := ustr ''Analyzing audio duration...''\<rparr>;
                calls1 = [GetAudioDuration]
            in case getAudioDuration env 0 file of
                 None \<Rightarrow> (sb_catch s1 None, calls1)
               | Some duration \<Rightarrow>
                   (let n = numSegments duration;
                        segments = makeSegments file n
                    in case processSegments env file n segments 0 [] (s1, calls1) of
                         (Inl e, s2, calls2) \<Rightarrow> (sb_catch s2 e, calls2)
                       | (Inr generatedImages, s2, calls2) \<Rightarrow>
                           (let s3 = s2\<lparr>progressMessage := ustr ''Generating story summary...''\<rparr>;
                                calls3 = calls2 @ [FileToBase64 (Blob.truncate file)]
                            in case fileToBase64 env (length calls2) (Blob.truncate file) of
                                 Inl e \<Rightarrow> (sb_catch s3 e, calls3)
                               | Inr fullAudioBase64 \<Rightarrow>
                                   (let calls4 = calls3 @ [GenerateStorySummaryFromAudio]
                                    in case generateStorySummaryFromAudio env (length calls3)
                                              fullAudioBase64 (mimeType file) of
                                         Inl e \<Rightarrow> (sb_catch s3 e, calls4)
                                       | Inr storySummary \<Rightarrow>
                                           (s3\<lparr>summary := storySummary, progressMessage := [],
                                               storyboardState := SB_FINISHED\<rparr>, calls4))))))"

section \<open>AudioInput\<close>

text \<open>
  \<open>(file.size / 1024 / 1024).toFixed(2)\<close>. The quotient is exact in a double (a division
  of an integer below \<open>2^53\<close> by a power of two), and \<open>toFixed\<close> takes the integer
  \<open>n\<close> with \<open>n / 100\<close> nearest to it, the larger one on a tie.
\<close>

definition toFixed2MB :: "nat \<Rightarrow> jsstring" where
  "toFixed2MB sz =
     (let n = (sz * 100 * 2 + 1024 * 1024) div (2 * 1024 * 1024)
      in decimal (n div 100) @ ustr ''.'' @ padStart0 2 (decimal (n mod 100)))"

definition tooLargeMessage :: "jsstring \<Rightarrow> nat \<Rightarrow> jsstring" where
  "tooLargeMessage what sz =
     what @ ustr '' is too large ('' @ toFixed2MB sz @ ustr ''MB). Max size is ''
       @ decimal MAX_FILE_SIZE_MB @ ustr ''MB.''"

text \<open>
  What a handler of the component does to its parent: the props it calls, in order.
  Each handler takes the \<open>fileName\<close> state and returns the new one.
\<close>

datatype callback =
    OnAudioFileSelected File
  | OnRecordingComplete File
  | OnImageFileSelected File
  | OnError jsstring

definition handleRecordingDone :: "jsstring \<Rightarrow> File \<Rightarrow> jsstring \<times> callback list" where
  "handleRecordingDone fileNameState file =
     (if blobSize file > MAX_FILE_SIZE then
        ([], [OnError (tooLargeMessage (ustr ''Recording'') (blobSize file))])
      else (name file, [OnRecordingComplete file]))"

definition handleFileChange :: "jsstring \<Rightarrow> File option \<Rightarrow> jsstring \<times> callback list" where
  "handleFileChange fileNameState selected =
     (case selected of
        None \<Rightarrow> (fileNameState, [])
      | Some file \<Rightarrow>
          if blobSize file > MAX_FILE_SIZE then
            ([], [OnError (tooLargeMessage (ustr ''File'') (blobSize file))])
          else (name file, [OnAudioFileSelected file]))"

definition handleImageFileChange :: "jsstring \<Rightarrow> File option \<Rightarrow> jsstring \<times> callback list" where
  "handleImageFileChange fileNameState selected =
     (case selected of
        None \<Rightarrow> (fileNameState, [])
      | Some file \<Rightarrow>
          if blobSize file > MAX_FILE_SIZE then
            (fileNameState, [OnError (tooLargeMessage (ustr ''Image file'') (blobSize file))])
          else (fileNameState, [OnImageFileSelected file]))"

section \<open>CreatorStudio\<close>

datatype AppState = IDLE | ANALYZING | GENERATING | EDITING | ERROR

record creator =
  appState :: AppState
  cs_error :: "jsstring option"
  audioFile :: "File option"
  audioContext :: jsstring
  textPrompt :: jsstring
  generationFilter :: FilterType
  imageHistory :: "ImageData list"
  activeImageIndex :: "nat option"

text \<open>\<open>imageHistory[activeImageIndex]\<close>: \<open>undefined\<close> out of range, which is falsy.\<close>

definition activeImage :: "creator \<Rightarrow> ImageData option" where
  "activeImage s =
     (case activeImageIndex s of
        None \<Rightarrow> None
      | Some i \<Rightarrow> if i < length (imageHistory s) then Some (imageHistory s ! i) else None)"

definition resetCreatorState :: creator where
  "resetCreatorState = \<lparr>appState = IDLE, cs_error = None, audioFile = None, audioContext = [],
      textPrompt = [], generationFilter = Unspecified, imageHistory = [],
      activeImageIndex = None\<rparr>"

text \<open>The part of \<open>handleGeneration\<close> after the prompt is known.\<close>

definition generateFromPrompt ::
  "services \<Rightarrow> creator \<Rightarrow> call list \<Rightarrow> jsstring \<Rightarrow> creator \<times> call list" where
  "generateFromPrompt env s calls finalPrompt =
     (if trim finalPrompt = [] then
        (s\<lparr>cs_error := Some (ustr ''A prompt is required to generate an image. Please type one or provide an audio file.''),
           appState := IDLE\<rparr>, calls)
      else
        (let s1 = s\<lparr>appState := GENERATING\<rparr>;
             calls1 = calls @ [GenerateImage finalPrompt (generationFilter s)]
         in case generateImage (generateContent env (length calls)) finalPrompt
                   (generationFilter s) of
              Inl e \<Rightarrow>
                (s1\<lparr>cs_error := Some (message_or e
                        (ustr ''An unknown error occurred during image generation.'')),
                    appState := ERROR\<rparr>, calls1)
            | Inr imageBase64 \<Rightarrow>
                (let newImage = \<lparr>img_id = dateNow env (length calls1), base64 = imageBase64,
                                 prompt = finalPrompt\<rparr>
                 in (s1\<lparr>imageHistory := [newImage], activeImageIndex := Some 0,
                        appState := IDLE\<rparr>, calls1))))"

definition handleGeneration :: "services \<Rightarrow> creator \<Rightarrow> creator \<times> call list" where
  "handleGeneration env s =
     (let s0 = s\<lparr>cs_error := None\<rparr>
      in case audioFile s of
           None \<Rightarrow> generateFromPrompt env s0 [] (textPrompt s)
         | Some f \<Rightarrow>
             (let s1 = s0\<lparr>appState := ANALYZING\<rparr>;
                  analysisFailed = (\<lambda>e. s1\<lparr>cs_error := Some (message_or e
                        (ustr ''An unknown error occurred during audio analysis.'')),
                      appState := ERROR\<rparr>);
                  calls1 = [FileToBase64 (Blob.truncate f)]
              in case fileToBase64 env 0 (Blob.truncate f) of
                   Inl e \<Rightarrow> (analysisFailed e, calls1)
                 | Inr audioBase64 \<Rightarrow>
                     (let calls2 = calls1 @ [GeneratePromptFromMusic]
                      in case generatePromptFromMusic env (length calls1) audioBase64
                                (mimeType f) (audioContext s) of
                           Inl e \<Rightarrow> (analysisFailed e, calls2)
                         | Inr finalPrompt \<Rightarrow>
                             generateFromPrompt env (s1\<lparr>textPrompt := finalPrompt\<rparr>) calls2
                               finalPrompt)))"

text \<open>
  The prompt of an edited image. The two inner line breaks and the one before each
  line are the code unit \<open>0x0A\<close>.
\<close>

definition editedPrompt :: "jsstring \<Rightarrow> FilterType \<Rightarrow> jsstring \<Rightarrow> jsstring" where
  "editedPrompt previous filt editPrompt =
     (let newPrompt = previous @ [0x0A, 0x0A] @ ustr ''---'';
          newPrompt1 = (if filt \<noteq> Unspecified
                        then newPrompt @ [0x0A] @ ustr ''Filter: '' @ filterTag filt
                        else newPrompt)
      in if editPrompt \<noteq> [] then newPrompt1 @ [0x0A] @ ustr ''Edit: '' @ editPrompt
         else newPrompt1)"

text \<open>
  \<open>handleEdit\<close>. Its \<open>finally\<close> sets the state to \<open>IDLE\<close> after the \<open>catch\<close> has set
  it to \<open>ERROR\<close>, so a failed edit ends in \<open>IDLE\<close> with the error message set.
\<close>

definition editFailed :: "creator \<Rightarrow> thrown \<Rightarrow> creator" where
  "editFailed s e =
     s\<lparr>cs_error := Some (message_or e (ustr ''An unknown error occurred during image editing.'')),
       appState := IDLE\<rparr>"

definition applyEdit ::
  "services \<Rightarrow> creator \<Rightarrow> call list \<Rightarrow> ImageData \<Rightarrow> jsstring \<Rightarrow> FilterType
     \<Rightarrow> (jsstring \<times> jsstring) option \<Rightarrow> creator \<times> call list" where
  "applyEdit env s calls active editPrompt filt remixImage =
     (let calls1 = calls @ [EditImage editPrompt filt]
      in case editImage (generateContent env (length calls)) (base64 active)
                (ustr ''image/jpeg'') editPrompt filt remixImage of
           Inl e \<Rightarrow> (editFailed s e, calls1)
         | Inr newImageBase64 \<Rightarrow>
             (let newPrompt = editedPrompt (prompt active) filt editPrompt;
                  newImage = \<lparr>img_id = dateNow env (length calls1), base64 = newImageBase64,
                               prompt = newPrompt\<rparr>;
                  newHistory = imageHistory s @ [newImage]
              in (s\<lparr>imageHistory := newHistory,
                     activeImageIndex := Some (length newHistory - 1),
                     appState := IDLE\<rparr>, calls1)))"

definition handleEdit ::
  "services \<Rightarrow> creator \<Rightarrow> jsstring \<Rightarrow> FilterType \<Rightarrow> File option \<Rightarrow> creator \<times> call list" where
  "handleEdit env s editPrompt filt remixImageFile =
     (case activeImage s of
        None \<Rightarrow> (s, [])
      | Some active \<Rightarrow>
          (let s1 = s\<lparr>cs_error := None, appState := EDITING\<rparr>
           in case remixImageFile of
                None \<Rightarrow> applyEdit env s1 [] active editPrompt filt None
              | Some rf \<Rightarrow>
                  (let calls1 = [FileToBase64 (Blob.truncate rf)]
                   in case fileToBase64 env 0 (Blob.truncate rf) of
                        Inl e \<Rightarrow> (editFailed s1 e, calls1)
                      | Inr b \<Rightarrow>
                          applyEdit env s1 calls1 active editPrompt filt
                            (Some (b, mimeType rf)))))"

section \<open>LiveSynesthesia\<close>

datatype LiveState = L_CONFIG | L_RECORDING | L_GENERATING | L_FINISHED | L_ERROR

datatype GenerationMode = Count | Duration

record liveContext =
  location :: jsstring
  areaType :: jsstring
  timeOfDay :: jsstring
  activity :: jsstring
  gender :: jsstring
  age :: jsstring

text \<open>
  \<open>processAudioChunk\<close> is a closure of the render that defined it. These are the
  values of that render that it reads: the \<open>generatedImages\<close> state,
  \<open>totalImagesToGenerate\<close> and \<open>context\<close>.
\<close>

record closure =
  cl_generatedImages :: "LiveImageData list"
  cl_totalImagesToGenerate :: nat
  cl_context :: liveContext

text \<open>
  A call of \<open>processAudioChunk\<close> that is suspended at an \<open>await\<close>: the blob and the
  image index it computed, the closure it runs in, and the call it waits for
  (with the value obtained so far).
\<close>

datatype stage = AwaitFileToBase64 | AwaitLivePrompt jsstring | AwaitGenerateImage jsstring

record task =
  audioBlob :: Blob
  imageIndex :: nat
  t_closure :: closure
  t_stage :: stage

datatype recorder = NoRecorder | RecorderRecording | RecorderInactive

text \<open>
  The state of the component: its React state, its refs, and the suspended calls of
  \<open>processAudioChunk\<close>. \<open>intervalRef\<close> holds the callback given to \<open>setInterval\<close>,
  represented by its closure. \<open>attempts\<close> is not in the source: it records, for each
  call of \<open>processAudioChunk\<close> that reached its \<open>try\<close> block, the buffered chunks its
  blob was made of. The settings are numbers (a cleared number field, which
  \<open>parseInt\<close> turns into NaN, is not modelled).
\<close>

record live =
  liveState :: LiveState
  live_error :: "jsstring option"
  context_of :: liveContext
  generationMode :: GenerationMode
  imageCount :: nat
  duration :: nat
  interval :: nat
  generatedImages :: "LiveImageData list"
  currentStatus :: jsstring
  countdown :: nat
  intervalRef :: "closure option"
  countdownRef :: bool
  audioChunksRef :: "Blob list"
  mediaRecorderRef :: recorder
  isProcessingRef :: bool
  summaryRef :: "jsstring option"
  tasks :: "task list"
  attempts :: "Blob list list"

definition totalImagesToGenerate :: "live \<Rightarrow> nat" where
  "totalImagesToGenerate s =
     (if generationMode s = Count then imageCount s else (duration s * 60) div interval s)"

definition initialLive :: live where
  "initialLive = \<lparr>liveState = L_CONFIG, live_error = None,
     context_of = \<lparr>location = [], areaType = ustr ''Urban'', timeOfDay = ustr ''Afternoon'',
                    activity = [], gender = ustr ''Prefer not to say'', age = []\<rparr>,
     generationMode = Count, imageCount = 5, duration = 1, interval = 15,
     generatedImages = [], currentStatus = [], countdown = 15,
     intervalRef = None, countdownRef = False, audioChunksRef = [],
     mediaRecorderRef = NoRecorder, isProcessingRef = False, summaryRef = None,
     tasks = [], attempts = []\<rparr>"

definition stopLiveRecording :: "live \<Rightarrow> live" where
  "stopLiveRecording s =
     s\<lparr>mediaRecorderRef := (if mediaRecorderRef s = RecorderRecording then RecorderInactive
                              else mediaRecorderRef s),
       intervalRef := None, countdownRef := False\<rparr>"

definition renderClosure :: "live \<Rightarrow> closure" where
  "renderClosure s = \<lparr>cl_generatedImages = generatedImages s,
                       cl_totalImagesToGenerate = totalImagesToGenerate s,
                       cl_context = context_of s\<rparr>"

text \<open>
  The effect with dependencies \<open>[liveState, interval]\<close>, when the state is
  \<open>RECORDING\<close>: it registers the \<open>processAudioChunk\<close> of the render it runs in.
\<close>

definition recordingEffect :: "live \<Rightarrow> live" where
  "recordingEffect s =
     s\<lparr>countdown := interval s, intervalRef := Some (renderClosure s), countdownRef := True\<rparr>"

text \<open>
  The part of \<open>generateSummary\<close> before its \<open>await\<close>, which the effect on
  \<open>liveState\<close> and \<open>generateSummary\<close> calls in the state \<open>GENERATING\<close>.
\<close>

definition startSummary :: "live \<Rightarrow> live" where
  "startSummary s =
     (if generatedImages s = [] then s\<lparr>liveState := L_FINISHED\<rparr>
      else s\<lparr>currentStatus := ustr ''Creating your story summary...''\<rparr>)"

text \<open>
  \<open>setLiveState\<close>, with the effects that the new render runs when the state changed:
  the cleanup of the recording effect on leaving \<open>RECORDING\<close>, its setup on entering
  it, and the start of the summary on entering \<open>GENERATING\<close>.
\<close>

definition setLiveState :: "LiveState \<Rightarrow> live \<Rightarrow> live" where
  "setLiveState new s =
     (if liveState s = new then s
      else
        (let s1 = (if liveState s = L_RECORDING then stopLiveRecording s else s)
                    \<lparr>liveState := new\<rparr>
         in if new = L_RECORDING then recordingEffect s1
            else if new = L_GENERATING then startSummary s1
            else s1))"

text \<open>The effect that stops the capture when the target count is reached.\<close>

definition targetReachedEffect :: "live \<Rightarrow> live" where
  "targetReachedEffect s =
     (if liveState s = L_RECORDING \<and> length (generatedImages s) \<ge> totalImagesToGenerate s
      then setLiveState L_GENERATING (stopLiveRecording s)
      else s)"

text \<open>
  \<open>startFlow\<close>; the request for the microphone that it starts is answered later
  (\<open>micGranted\<close>, \<open>micDenied\<close>).
\<close>

definition startFlow :: "live \<Rightarrow> live" where
  "startFlow s =
     targetReachedEffect
       (setLiveState L_RECORDING (s\<lparr>live_error := None, generatedImages := []\<rparr>))"

definition micGranted :: "live \<Rightarrow> live" where
  "micGranted s = s\<lparr>mediaRecorderRef := RecorderRecording, audioChunksRef := []\<rparr>"

definition micDenied :: "live \<Rightarrow> live" where
  "micDenied s =
     setLiveState L_ERROR
       (s\<lparr>live_error := Some (ustr ''Could not access microphone. Please ensure permissions are granted and refresh the page.'')\<rparr>)"

text \<open>\<open>mediaRecorder.ondataavailable\<close>.\<close>

definition dataAvailable :: "Blob \<Rightarrow> live \<Rightarrow> live" where
  "dataAvailable chunk s =
     (if blobSize chunk > 0 then s\<lparr>audioChunksRef := audioChunksRef s @ [chunk]\<rparr> else s)"

text \<open>\<open>new Blob(chunks, { type })\<close>.\<close>

definition newBlob :: "Blob list \<Rightarrow> jsstring \<Rightarrow> Blob" where
  "newBlob chunks ty = \<lparr>bytes = concat (map bytes chunks), mimeType = ty\<rparr>"

definition liveStatus :: "string \<Rightarrow> nat \<Rightarrow> nat \<Rightarrow> jsstring" where
  "liveStatus what i tot =
     ustr what @ decimal i @ ustr '' of '' @ decimal tot @ ustr ''...''"

definition liveFileName :: "nat \<Rightarrow> jsstring" where
  "liveFileName i = ustr ''image_'' @ decimal i @ ustr ''.jpeg''"

text \<open>
  \<open>processAudioChunk\<close> up to its first \<open>await\<close>, run in the closure \<open>cl\<close>. It reads
  the refs from the component and \<open>generatedImages\<close> from its closure.
\<close>

definition processAudioChunk :: "closure \<Rightarrow> live \<Rightarrow> live" where
  "processAudioChunk cl s =
     (if isProcessingRef s \<or> audioChunksRef s = [] then s
      else
        (let s1 = s\<lparr>isProcessingRef := True\<rparr>;
             blob = newBlob (audioChunksRef s1) (ustr ''audio/webm'');
             s2 = s1\<lparr>audioChunksRef := []\<rparr>
         in if blobSize blob < 1024 then s2\<lparr>isProcessingRef := False\<rparr>
            else
              (let idx = length (cl_generatedImages cl) + 1;
                   s3 = s2\<lparr>currentStatus := liveStatus ''Analyzing sound for image '' idx
                                               (cl_totalImagesToGenerate cl)\<rparr>
               in s3\<lparr>tasks := tasks s3 @ [\<lparr>audioBlob = blob, imageIndex = idx, t_closure = cl,
                                            t_stage = AwaitFileToBase64\<rparr>],
                      attempts := attempts s3 @ [audioChunksRef s]\<rparr>)))"

text \<open>The timer fires: the registered callback runs, if there is one.\<close>

definition tick :: "live \<Rightarrow> live" where
  "tick s = (case intervalRef s of None \<Rightarrow> s | Some cl \<Rightarrow> processAudioChunk cl s)"

text \<open>The \<open>finally\<close> of \<open>processAudioChunk\<close>, which ends the suspended call \<open>i\<close>.\<close>

definition finishTask :: "nat \<Rightarrow> live \<Rightarrow> live" where
  "finishTask i s =
     s\<lparr>isProcessingRef := False, tasks := take i (tasks s) @ drop (Suc i) (tasks s)\<rparr>"

text \<open>
  The awaited call of the suspended call \<open>i\<close> settles with \<open>r\<close> at clock time \<open>now\<close>.
  A rejection is caught, logged and dropped. After an image is appended the new
  render runs the effects that depend on \<open>generatedImages\<close>.
\<close>

definition settle :: "nat \<Rightarrow> thrown + jsstring \<Rightarrow> nat \<Rightarrow> live \<Rightarrow> live" where
  "settle i r now s =
     (if i < length (tasks s) then
        (let t = tasks s ! i
         in case r of
              Inl e \<Rightarrow> finishTask i s
            | Inr v \<Rightarrow>
                (case t_stage t of
                   AwaitFileToBase64 \<Rightarrow>
                     s\<lparr>tasks := (tasks s)[i := t\<lparr>t_stage := AwaitLivePrompt v\<rparr>]\<rparr>
                 | AwaitLivePrompt audioBase64 \<Rightarrow>
                     s\<lparr>currentStatus := liveStatus ''Generating image '' (imageIndex t)
                                           (cl_totalImagesToGenerate (t_closure t)),
                       tasks := (tasks s)[i := t\<lparr>t_stage := AwaitGenerateImage v\<rparr>]\<rparr>
                 | AwaitGenerateImage p \<Rightarrow>
                     (let newImage = \<lparr>img_id = now, base64 = v, prompt = p,
                                      fileName = liveFileName (imageIndex t)\<rparr>;
                          s1 = finishTask i
                                 (s\<lparr>generatedImages := generatedImages s @ [newImage]\<rparr>)
                      in if liveState s1 = L_GENERATING then startSummary s1
                         else targetReachedEffect s1)))
      else s)"

definition handleStop :: "live \<Rightarrow> live" where
  "handleStop s =
     (let s1 = stopLiveRecording s
      in if length (generatedImages s) > 0 then setLiveState L_GENERATING s1
         else setLiveState L_CONFIG s1)"

text \<open>
  The rest of \<open>generateSummary\<close>, when \<open>generateSummaryMarkdown\<close> has settled with
  \<open>r\<close>.
\<close>

definition summarySettled :: "thrown + jsstring \<Rightarrow> live \<Rightarrow> live" where
  "summarySettled r s =
     (let s1 = (case r of
                  Inr summaryText \<Rightarrow> s\<lparr>summaryRef := Some summaryText\<rparr>
                | Inl e \<Rightarrow>
                    s\<lparr>live_error := Some (ustr ''Could not generate summary. You can still download the images.''),
                      summaryRef := Some (ustr ''Summary generation failed.'')\<rparr>)
      in (setLiveState L_FINISHED s1)\<lparr>currentStatus := []\<rparr>)"

definition resetFlow :: "live \<Rightarrow> live" where
  "resetFlow s =
     (setLiveState L_CONFIG s)\<lparr>generatedImages := [], live_error := None, currentStatus := [],
                               summaryRef := None\<rparr>"

text \<open>What can happen to the component, and a run of such events.\<close>

datatype event =
    StartFlow
  | MicGranted
  | MicDenied
  | DataAvailable Blob
  | Tick
  | Settle nat "thrown + jsstring" nat
  | HandleStop
  | SummarySettled "thrown + jsstring"
  | ResetFlow

fun fire :: "live \<Rightarrow> event \<Rightarrow> live" where
  "fire s StartFlow = startFlow s"
| "fire s MicGranted = micGranted s"
| "fire s MicDenied = micDenied s"
| "fire s (DataAvailable chunk) = dataAvailable chunk s"
| "fire s Tick = tick s"
| "fire s (Settle i r now) = settle i r now s"
| "fire s HandleStop = handleStop s"
| "fire s (SummarySettled r) = summarySettled r s"
| "fire s ResetFlow = resetFlow s"

definition run :: "live \<Rightarrow> event list \<Rightarrow> live" where
  "run s evs = foldl fire s evs"

text \<open>The chunks that the recorder delivered in a run, in order.\<close>

fun delivered :: "event list \<Rightarrow> Blob list" where
  "delivered [] = []"
| "delivered (DataAvailable chunk # evs) = chunk # delivered evs"
| "delivered (_ # evs) = delivered evs"

text \<open>The events that only deliver audio or settle an awaited call.\<close>

fun quiet :: "event \<Rightarrow> bool" where
  "quiet (DataAvailable chunk) = True"
| "quiet (Settle i r now) = True"
| "quiet _ = False"

section \<open>Example inputs\<close>

text \<open>
  A file of one megabyte, a backend response that carries an image, and collaborators
  that always succeed; then the same with a summary call that fails.
\<close>

definition file0 :: File where
  "file0 = \<lparr>bytes = replicate 1048576 0, mimeType = ustr ''audio/mpeg'', name = ustr ''story.mp3''\<rparr>"

definition resp0 :: response where
  "resp0 = \<lparr>promptFeedbackOf = None,
             candidates = Some [\<lparr>content_parts = Some [None, Some (ustr ''AAAA'')],
                                 finishReason = None, safetyRatings = None\<rparr>]\<rparr>"

definition env0 :: services where
  "env0 = \<lparr>fileToBase64 = (\<lambda>k b. Inr (ustr ''QUJD'')),
     getAudioDuration = (\<lambda>k f. Some (Finite 121)),
     generatePromptFromMusic = (\<lambda>k a m c. Inr (ustr ''a calm sea'')),
     transcribeAudioToPrompt = (\<lambda>k a m c. Inr (ustr ''a red door'')),
     generatePromptFromAudioSegment = (\<lambda>k a m i n. Inr (ustr ''a scene'')),
     generateStorySummaryFromAudio = (\<lambda>k a m. Inr (ustr ''# Story'')),
     generateContent = (\<lambda>k r. Inr resp0),
     dateNow = (\<lambda>k. 1000 + k)\<rparr>"

definition envNoSummary :: services where
  "envNoSummary = env0\<lparr>generateStorySummaryFromAudio := (\<lambda>k a m. Inl (Some (ustr ''quota'')))\<rparr>"

definition bigFile1 :: File where
  "bigFile1 = \<lparr>bytes = replicate 20971521 0, mimeType = ustr ''audio/mpeg'', name = ustr ''long.mp3''\<rparr>"

definition bigFile2 :: File where
  "bigFile2 = \<lparr>bytes = replicate 31457280 0, mimeType = ustr ''audio/mpeg'', name = ustr ''longer.mp3''\<rparr>"

definition smallFile :: File where
  "smallFile = \<lparr>bytes = replicate 1000 0, mimeType = ustr ''audio/mpeg'', name = ustr ''short.mp3''\<rparr>"

definition typedPrompt :: creator where
  "typedPrompt = resetCreatorState\<lparr>textPrompt := ustr ''a red door''\<rparr>"

definition oneImage :: creator where
  "oneImage = resetCreatorState\<lparr>textPrompt := ustr ''a red door'',
      imageHistory := [\<lparr>img_id = 1001, base64 = ustr ''AAAA'', prompt = ustr ''a red door''\<rparr>],
      activeImageIndex := Some 0\<rparr>"

text \<open>
  A chunk of one kilobyte and runs of the live capture: the first tick that starts
  processing, a state in which a second tick finds it still busy, and two images
  produced one after the other.
\<close>

definition chunk1k :: Blob where
  "chunk1k = \<lparr>bytes = replicate 1024 0, mimeType = ustr ''audio/webm;codecs=opus''\<rparr>"

definition firstClosure :: closure where
  "firstClosure = \<lparr>cl_generatedImages = [], cl_totalImagesToGenerate = 5,
                    cl_context = context_of initialLive\<rparr>"

definition firstTick :: "event list" where
  "firstTick = [StartFlow, MicGranted, DataAvailable chunk1k, Tick]"

definition busyState :: live where
  "busyState = run initialLive (firstTick @ [DataAvailable chunk1k])"

definition laterEvents :: "event list" where
  "laterEvents = [DataAvailable chunk1k, Settle 0 (Inl None) 1000]"

definition chunk500 :: Blob where
  "chunk500 = \<lparr>bytes = replicate 500 0, mimeType = ustr ''audio/webm;codecs=opus''\<rparr>"

definition busySmall :: live where
  "busySmall = run initialLive (firstTick @ [DataAvailable chunk500])"

definition oneImageDone :: "event list" where
  "oneImageDone = firstTick @ [Settle 0 (Inr (ustr ''QUJD'')) 1000, Settle 0 (Inr (ustr ''a busy street'')) 1001,
       Settle 0 (Inr (ustr ''AAAA'')) 1002]"

definition twoImagesDone :: "event list" where
  "twoImagesDone = oneImageDone @ [DataAvailable chunk1k, Tick, Settle 0 (Inr (ustr ''QUJD'')) 2000,
       Settle 0 (Inr (ustr ''a quiet park'')) 2001, Settle 0 (Inr (ustr ''BBBB'')) 2002]"

section \<open>Properties of the storyboard pipeline\<close>

lemma decimal_digit: "n < 10 \<Longrightarrow> decimal n = [of_nat (48 + n)]"
  by (simp add: decimal.simps)

lemma decimal_20: "decimal 20 = ustr ''20''"
  by (simp add: decimal.simps ustr_def)

lemma length_makeSegments: "length (makeSegments file n) = n"
  by (simp add: makeSegments_def Let_def)

lemma processSegments_length:
  "processSegments env file n segs i gen (s, calls) = (Inr imgs, s', calls') \<Longrightarrow>
   length imgs = length gen + length segs"
proof (induction segs arbitrary: i gen s calls)
  case Nil
  then show ?case by simp
next
  case (Cons seg rest)
  then show ?case
    by (fastforce simp: Let_def split: sum.splits)
qed

lemma processSegments_images:
  "processSegments env file n segs i gen (s, calls) = (Inr imgs, s', calls') \<Longrightarrow>
   images s = gen \<Longrightarrow> images s' = imgs"
proof (induction segs arbitrary: i gen s calls)
  case Nil
  then show ?case by simp
next
  case (Cons seg rest)
  from Cons.prems(1) show ?case
    apply (simp add: Let_def split: sum.splits)
    apply (erule Cons.IH)
    apply simp
    done
qed

lemma processSegments_succeeds:
  assumes b64: "\<And>k b. \<exists>x. fileToBase64 env k b = Inr x"
    and pr: "\<And>k a m j. \<exists>x. generatePromptFromAudioSegment env k a m j n = Inr x"
    and im: "\<And>k p. \<exists>x. generateImage (generateContent env k) p RaphaeliteDigitalArt = Inr x"
  shows "\<exists>imgs s' calls'. processSegments env file n segs i gen (s, calls) = (Inr imgs, s', calls')"
proof (induction segs arbitrary: i gen s calls)
  case Nil
  show ?case by simp
next
  case (Cons seg rest)
  obtain a where a: "fileToBase64 env (length calls) seg = Inr a"
    using b64 by blast
  obtain p where p: "generatePromptFromAudioSegment env (Suc (length calls)) a (mimeType file) (Suc i) n = Inr p"
    using pr by blast
  obtain d where d: "generateImage (generateContent env (Suc (Suc (length calls)))) p RaphaeliteDigitalArt = Inr d"
    using im by blast
  show ?case
    using a p d Cons.IH by (simp add: Let_def)
qed

text \<open>What processFile does with an accepted file whose duration could be read.\<close>

lemma processFile_accepted:
  assumes "MIN_FILE_SIZE \<le> blobSize file" "blobSize file \<le> MAX_FILE_SIZE"
    and "getAudioDuration env 0 file = Some d"
    and "processSegments env file (numSegments d) (makeSegments file (numSegments d)) 0 []
           (resetState\<lparr>storyboardState := SB_PROCESSING,
                        progressMessage := ustr ''Analyzing audio duration...''\<rparr>, [GetAudioDuration])
         = (Inr imgs, s2, calls2)"
    and "fileToBase64 env (length calls2) (Blob.truncate file) = Inr b"
  shows "processFile env file =
     (case generateStorySummaryFromAudio env (Suc (length calls2)) b (mimeType file) of
        Inl e \<Rightarrow> (sb_catch (s2\<lparr>progressMessage := ustr ''Generating story summary...''\<rparr>) e,
                  calls2 @ [FileToBase64 (Blob.truncate file), GenerateStorySummaryFromAudio])
      | Inr t \<Rightarrow> (s2\<lparr>progressMessage := [], summary := t, storyboardState := SB_FINISHED\<rparr>,
                  calls2 @ [FileToBase64 (Blob.truncate file), GenerateStorySummaryFromAudio]))"
  using assms by (simp add: processFile_def Let_def split: sum.splits)

lemma processFile_finished:
  assumes "storyboardState (fst (processFile env file)) = SB_FINISHED"
  shows "\<exists>d. getAudioDuration env 0 file = Some d \<and>
             length (images (fst (processFile env file))) = numSegments d"
proof -
  from assms obtain d imgs s2 calls2 where d: "getAudioDuration env 0 file = Some d"
    and ps: "processSegments env file (numSegments d) (makeSegments file (numSegments d)) 0 []
           (resetState\<lparr>storyboardState := SB_PROCESSING,
                        progressMessage := ustr ''Analyzing audio duration...''\<rparr>, [GetAudioDuration])
         = (Inr imgs, s2, calls2)"
    and im: "images (fst (processFile env file)) = images s2"
    by (auto simp: processFile_def Let_def sb_catch_def split: if_splits option.splits prod.splits sum.splits)
  from processSegments_length[OF ps] have "length imgs = numSegments d"
    by (simp add: length_makeSegments)
  moreover from processSegments_images[OF ps] have "images s2 = imgs"
    by (simp add: resetState_def)
  ultimately show ?thesis using d im by simp
qed

text \<open>
  Claim C1. The number of segments is a function of the duration alone: 7 from 1800
  seconds on, 5 above 300, 4 above 120 and 3 otherwise (also for NaN), with the
  stated values at the boundaries; \<open>processFile\<close> cuts the file into that many
  segments, and a run that finishes has produced that many images.
\<close>

theorem segment_count_from_duration: 
  "numSegments (Finite x) = (if 1800 \<le> x then 7 else if 300 < x then 5 else if 120 < x then 4 else 3)
   \<and> numSegments PosInfinity = 7 \<and> numSegments NegInfinity = 3 \<and> numSegments NaN = 3
   \<and> numSegments (Finite 120) = 3 \<and> numSegments (Finite 121) = 4
   \<and> numSegments (Finite 300) = 4 \<and> numSegments (Finite 301) = 5
   \<and> numSegments (Finite 1799) = 5 \<and> numSegments (Finite 1800) = 7
   \<and> length (makeSegments f (numSegments d)) = numSegments d
   \<and> (storyboardState (fst (processFile env f)) = SB_FINISHED \<longrightarrow>
        (\<exists>d'. getAudioDuration env 0 f = Some d'
           \<and> length (images (fst (processFile env f))) = numSegments d'))"
  using processFile_finished[of env f]
  by (simp add: numSegments_def length_makeSegments)

lemma generateImage_env0: "generateImage (generateContent env0 k) p f = Inr (ustr ''AAAA'')"
  by (simp add: generateImage_def env0_def resp0_def imageFromReply_def truthy_def ustr_def)

lemma file0_size: "blobSize file0 = 1048576"
  by (simp add: file0_def blobSize_def)

lemma processSegments_env0:
  "\<exists>imgs s2 calls2.
     processSegments env0 file0 (numSegments (Finite 121))
        (makeSegments file0 (numSegments (Finite 121))) 0 []
        (resetState\<lparr>storyboardState := SB_PROCESSING,
                     progressMessage := ustr ''Analyzing audio duration...''\<rparr>, [GetAudioDuration])
      = (Inr imgs, s2, calls2)"
proof (rule processSegments_succeeds)
  show "\<exists>x. fileToBase64 env0 k b = Inr x" for k b
    by (simp add: env0_def)
  show "\<exists>x. generatePromptFromAudioSegment env0 k a m j (numSegments (Finite 121)) = Inr x"
    for k a m j
    by (simp add: env0_def)
  show "\<exists>x. generateImage (generateContent env0 k) p RaphaeliteDigitalArt = Inr x" for k p
    by (simp add: generateImage_env0)
qed

lemma processFile_env0_finished: "storyboardState (fst (processFile env0 file0)) = SB_FINISHED"
proof -
  from processSegments_env0 obtain imgs s2 calls2 where ps:
    "processSegments env0 file0 (numSegments (Finite 121))
        (makeSegments file0 (numSegments (Finite 121))) 0 []
        (resetState\<lparr>storyboardState := SB_PROCESSING,
                     progressMessage := ustr ''Analyzing audio duration...''\<rparr>, [GetAudioDuration])
      = (Inr imgs, s2, calls2)"
    by blast
  show ?thesis
    by (subst processFile_accepted[OF _ _ _ ps])
       (simp_all add: file0_size MIN_FILE_SIZE_def MAX_FILE_SIZE_def MAX_FILE_SIZE_MB_def env0_def)
qed

theorem segment_count_from_duration_witness:
  "storyboardState (fst (processFile env0 file0)) = SB_FINISHED
   \<and> length (images (fst (processFile env0 file0))) = 4"
  using segment_count_from_duration[where env=env0 and f=file0] processFile_env0_finished
  by (simp add: env0_def numSegments_def)

section \<open>Properties of the service\<close>

text \<open>
  Claim C2, as stated, fails: with a style other than \<open>unspecified\<close> the suffix is not
  appended to the prompt but to the trimmed prompt, so a prompt that ends in a space
  loses it.
\<close>

theorem style_suffix_not_appended_to_prompt:
  "formatPromptWithFilter (ustr ''sea '') Anime
     \<noteq> ustr ''sea '' @ ustr ''. Style: '' @ filterStyles Anime @ ustr ''.''"
  by (simp add: formatPromptWithFilter_def trim_def isWhiteSpace_def ustr_def)

text \<open>
  Claim C2, amended. With the style \<open>unspecified\<close> the prompt is returned unchanged;
  with any other style the result is the trimmed prompt followed by one suffix
  \<open>. Style: <phrase>.\<close>, the phrase taken from \<open>filterStyles\<close>. \<open>generateImage\<close> and
  \<open>editImage\<close> both send the prompt formatted this way: each behaves as it does on the
  formatted prompt with no style.
\<close>

theorem style_suffix_on_trimmed_prompt:
  "formatPromptWithFilter p Unspecified = p
   \<and> (filt \<noteq> Unspecified \<longrightarrow>
        formatPromptWithFilter p filt = trim p @ ustr ''. Style: '' @ filterStyles filt @ ustr ''.'')
   \<and> generateImage ai p filt = generateImage ai (formatPromptWithFilter p filt) Unspecified
   \<and> editImage ai img mt p filt remix
        = editImage ai img mt (formatPromptWithFilter p filt) Unspecified remix"
  by (simp add: formatPromptWithFilter_def generateImage_def editImage_def)

theorem style_suffix_on_trimmed_prompt_witness:
  "Anime \<noteq> Unspecified \<and>
   formatPromptWithFilter (ustr ''sea '') Anime
     = ustr ''sea. Style: vibrant anime style, clean line art, cel shaded.''"
  using style_suffix_on_trimmed_prompt[of "ustr ''sea ''" Anime]
  by (simp add: trim_def isWhiteSpace_def ustr_def)


section \<open>Size limits\<close>


text \<open>
  Claim C8, as stated, fails for the storyboard: two files of different sizes above the
  maximum get the same message, which names the bound and not the size.
\<close>

theorem storyboard_message_omits_size:
  "MAX_FILE_SIZE < blobSize bigFile1 \<and> MAX_FILE_SIZE < blobSize bigFile2
   \<and> blobSize bigFile1 \<noteq> blobSize bigFile2
   \<and> sb_error (fst (processFile env0 bigFile1)) = Some (ustr ''File is too large. Maximum size is 20MB.'')
   \<and> sb_error (fst (processFile env0 bigFile2)) = Some (ustr ''File is too large. Maximum size is 20MB.'')"
  by (simp add: processFile_def bigFile1_def bigFile2_def blobSize_def MAX_FILE_SIZE_def
        MAX_FILE_SIZE_MB_def MIN_FILE_SIZE_def decimal_20 resetState_def ustr_def)

text \<open>
  Claim C8, amended. A file above the maximum is rejected by \<open>processFile\<close> with no
  call made and a message that gives the bound, and by the file-selection and
  recording handlers of \<open>AudioInput\<close> with only \<open>onError\<close> called and a message that
  gives the size in megabytes and the bound; a file below the minimum is rejected by
  \<open>processFile\<close> with no call made and a message that gives the minimum.
\<close>

theorem oversized_file_rejected_before_any_call:
  "(MAX_FILE_SIZE < blobSize f \<longrightarrow>
      processFile env f =
        (resetState\<lparr>sb_error := Some (ustr ''File is too large. Maximum size is 20MB.''),
                    storyboardState := SB_ERROR\<rparr>, [])
      \<and> handleFileChange shown (Some f) =
          ([], [OnError (ustr ''File is too large ('' @ toFixed2MB (blobSize f)
                           @ ustr ''MB). Max size is 20MB.'')])
      \<and> handleRecordingDone shown f =
          ([], [OnError (ustr ''Recording is too large ('' @ toFixed2MB (blobSize f)
                           @ ustr ''MB). Max size is 20MB.'')]))
   \<and> (blobSize f < MIN_FILE_SIZE \<longrightarrow>
      processFile env f =
        (resetState\<lparr>sb_error := Some (ustr ''File is too small. Minimum size is 1MB.''),
                    storyboardState := SB_ERROR\<rparr>, []))"
  by (simp add: processFile_def handleFileChange_def handleRecordingDone_def tooLargeMessage_def
        MAX_FILE_SIZE_def MAX_FILE_SIZE_MB_def MIN_FILE_SIZE_def decimal_20 ustr_def)

lemma toFixed2MB_bigFile1: "toFixed2MB 20971521 = ustr ''20.00''"
  by (simp add: toFixed2MB_def decimal.simps padStart0_def ustr_def)

theorem oversized_file_rejected_before_any_call_witness:
  "MAX_FILE_SIZE < blobSize bigFile1 \<and> blobSize smallFile < MIN_FILE_SIZE
   \<and> snd (processFile env0 bigFile1) = [] \<and> snd (processFile env0 smallFile) = []
   \<and> storyboardState (fst (processFile env0 bigFile1)) = SB_ERROR
   \<and> storyboardState (fst (processFile env0 smallFile)) = SB_ERROR
   \<and> handleFileChange [] (Some bigFile1) =
        ([], [OnError (ustr ''File is too large (20.00MB). Max size is 20MB.'')])"
  using oversized_file_rejected_before_any_call[of bigFile1 env0 "[]"]
    oversized_file_rejected_before_any_call[of smallFile env0 "[]"]
  by (simp add: bigFile1_def smallFile_def blobSize_def MAX_FILE_SIZE_def MAX_FILE_SIZE_MB_def
      MIN_FILE_SIZE_def toFixed2MB_bigFile1 ustr_def)

section \<open>Properties of the single-image session\<close>

lemma editImage_env0: "editImage (generateContent env0 k) img mt p f remix = Inr (ustr ''AAAA'')"
  by (simp add: editImage_def env0_def resp0_def imageFromReply_def truthy_def ustr_def)

lemma applyEdit_success:
  assumes "applyEdit env s calls a e filt remix = (s', c)" "cs_error s = None" "cs_error s' = None"
  shows "\<exists>newId newData. imageHistory s' = imageHistory s @
            [\<lparr>img_id = newId, base64 = newData, prompt = editedPrompt (prompt a) filt e\<rparr>]
         \<and> activeImageIndex s' = Some (length (imageHistory s))"
  using assms
  by (auto simp: applyEdit_def editFailed_def Let_def split: sum.splits)

lemma handleEdit_success:
  assumes "activeImage s = Some a" "handleEdit env s e filt rf = (s', c)" "cs_error s' = None"
  shows "\<exists>newId newData. imageHistory s' = imageHistory s @
            [\<lparr>img_id = newId, base64 = newData, prompt = editedPrompt (prompt a) filt e\<rparr>]
         \<and> activeImageIndex s' = Some (length (imageHistory s))"
proof (cases rf)
  case None
  with assms have "applyEdit env (s\<lparr>cs_error := None, appState := EDITING\<rparr>) [] a e filt None = (s', c)"
    by (simp add: handleEdit_def)
  from applyEdit_success[OF this _ assms(3)] show ?thesis by simp
next
  case (Some f)
  with assms obtain b where
    "applyEdit env (s\<lparr>cs_error := None, appState := EDITING\<rparr>)
        [FileToBase64 (Blob.truncate f)] a e filt (Some (b, mimeType f)) = (s', c)"
    by (auto simp: handleEdit_def editFailed_def Let_def split: sum.splits)
  from applyEdit_success[OF this _ assms(3)] show ?thesis by simp
qed

text \<open>
  Claim C4, amended. A successful edit of the selected entry appends one entry whose
  prompt is the previous prompt, then a blank line and \<open>---\<close>, then the line
  \<open>Filter: <style>\<close> when the style is not \<open>unspecified\<close>, then the line
  \<open>Edit: <text>\<close> when the text is not empty (neither line in brackets), and it
  selects the new entry. Success shows as no error message after the call.
\<close>

theorem edit_appends_lineage:
  assumes "activeImage s = Some a" "handleEdit env s e filt rf = (s', c)" "cs_error s' = None"
  shows "\<exists>newId newData. imageHistory s' = imageHistory s @
            [\<lparr>img_id = newId, base64 = newData,
              prompt = prompt a @ [0x0A, 0x0A] @ ustr ''---''
                 @ (if filt \<noteq> Unspecified then [0x0A] @ ustr ''Filter: '' @ filterTag filt else [])
                 @ (if e \<noteq> [] then [0x0A] @ ustr ''Edit: '' @ e else [])\<rparr>]
         \<and> activeImageIndex s' = Some (length (imageHistory s))"
  using handleEdit_success[OF assms]
  by (auto simp: editedPrompt_def Let_def)

lemma handleEdit_oneImage:
  "handleEdit env0 oneImage (ustr ''add rain'') Anime None =
     (oneImage\<lparr>imageHistory := imageHistory oneImage @
         [\<lparr>img_id = 1001, base64 = ustr ''AAAA'',
           prompt = editedPrompt (ustr ''a red door'') Anime (ustr ''add rain'')\<rparr>],
        activeImageIndex := Some 1\<rparr>, [EditImage (ustr ''add rain'') Anime])"
  by (simp add: handleEdit_def activeImage_def oneImage_def resetCreatorState_def applyEdit_def
      editImage_env0 Let_def) (simp add: env0_def)

text \<open>
  Claim C4, as stated, fails: the two lines are written without brackets.
\<close>

theorem edit_lines_have_no_brackets:
  "prompt (last (imageHistory (fst (handleEdit env0 oneImage (ustr ''add rain'') Anime None))))
     = ustr ''a red door'' @ [0x0A, 0x0A] @ ustr ''---'' @ [0x0A] @ ustr ''Filter: Anime''
         @ [0x0A] @ ustr ''Edit: add rain''
   \<and> prompt (last (imageHistory (fst (handleEdit env0 oneImage (ustr ''add rain'') Anime None))))
     \<noteq> ustr ''a red door'' @ [0x0A, 0x0A] @ ustr ''---'' @ [0x0A] @ ustr ''[Filter: Anime]''
         @ [0x0A] @ ustr ''[Edit: add rain]''"
  by (simp add: handleEdit_oneImage) (simp add: editedPrompt_def Let_def ustr_def)

theorem edit_appends_lineage_witness:
  "activeImage oneImage = Some \<lparr>img_id = 1001, base64 = ustr ''AAAA'', prompt = ustr ''a red door''\<rparr>
   \<and> cs_error (fst (handleEdit env0 oneImage (ustr ''add rain'') Anime None)) = None
   \<and> length (imageHistory (fst (handleEdit env0 oneImage (ustr ''add rain'') Anime None))) = 2
   \<and> activeImageIndex (fst (handleEdit env0 oneImage (ustr ''add rain'') Anime None)) = Some 1"
  using edit_appends_lineage[of oneImage "\<lparr>img_id = 1001, base64 = ustr ''AAAA'', prompt = ustr ''a red door''\<rparr>"
      env0 "ustr ''add rain''" Anime None
      "fst (handleEdit env0 oneImage (ustr ''add rain'') Anime None)"
      "snd (handleEdit env0 oneImage (ustr ''add rain'') Anime None)"]
  by (simp add: handleEdit_oneImage) (simp add: activeImage_def oneImage_def resetCreatorState_def)

lemma generateFromPrompt_success:
  assumes "generateFromPrompt env s calls p = (s1, c1)" "cs_error s = None" "cs_error s1 = None"
  shows "\<exists>root. imageHistory s1 = [root] \<and> prompt root = p \<and> trim p \<noteq> []
            \<and> activeImageIndex s1 = Some 0 \<and> appState s1 = IDLE"
  using assms
  by (auto simp: generateFromPrompt_def Let_def split: if_splits sum.splits)

text \<open>
  Claim C7. A successful \<open>handleGeneration\<close> from a typed prompt leaves a history of
  exactly one entry, whose prompt is the typed prompt (which is then not blank), and
  selects it; a successful \<open>handleEdit\<close> right after it leaves a history of length 2
  that keeps the root and whose second prompt has the root's prompt as a prefix.
\<close>

theorem create_then_edit_extends_root:
  assumes "audioFile s = None"
    and "handleGeneration env s = (s1, c1)" "cs_error s1 = None"
    and "handleEdit env' s1 e filt rf = (s2, c2)" "cs_error s2 = None"
  shows "\<exists>root. imageHistory s1 = [root] \<and> prompt root = textPrompt s \<and> trim (textPrompt s) \<noteq> []
           \<and> activeImageIndex s1 = Some 0
           \<and> length (imageHistory s2) = 2 \<and> imageHistory s2 ! 0 = root
           \<and> prefix (prompt root) (prompt (imageHistory s2 ! 1))
           \<and> activeImageIndex s2 = Some 1"
proof -
  from assms(1,2) have "generateFromPrompt env (s\<lparr>cs_error := None\<rparr>) [] (textPrompt s) = (s1, c1)"
    by (simp add: handleGeneration_def)
  from generateFromPrompt_success[OF this _ assms(3)]
  obtain root where root: "imageHistory s1 = [root]" "prompt root = textPrompt s"
      "trim (textPrompt s) \<noteq> []" "activeImageIndex s1 = Some 0"
    by auto
  then have act: "activeImage s1 = Some root"
    by (simp add: activeImage_def)
  from handleEdit_success[OF act assms(4,5)] root
  show ?thesis
    by (auto simp: editedPrompt_def Let_def)
qed

lemma handleGeneration_typedPrompt:
  "handleGeneration env0 typedPrompt = (oneImage, [GenerateImage (ustr ''a red door'') Unspecified])"
  by (simp add: handleGeneration_def typedPrompt_def oneImage_def resetCreatorState_def
      generateFromPrompt_def generateImage_env0 Let_def)
     (simp add: env0_def ustr_def trim_def isWhiteSpace_def)

theorem create_then_edit_extends_root_witness:
  "audioFile typedPrompt = None
   \<and> cs_error (fst (handleGeneration env0 typedPrompt)) = None
   \<and> cs_error (fst (handleEdit env0 (fst (handleGeneration env0 typedPrompt)) (ustr ''add rain'') Anime None)) = None
   \<and> length (imageHistory (fst (handleEdit env0 (fst (handleGeneration env0 typedPrompt)) (ustr ''add rain'') Anime None))) = 2"
  using create_then_edit_extends_root[of typedPrompt env0 oneImage "[GenerateImage (ustr ''a red door'') Unspecified]"
      env0 "ustr ''add rain''" Anime None
      "fst (handleEdit env0 oneImage (ustr ''add rain'') Anime None)"
      "snd (handleEdit env0 oneImage (ustr ''add rain'') Anime None)"]
  by (simp add: handleGeneration_typedPrompt handleEdit_oneImage)
     (simp add: typedPrompt_def oneImage_def resetCreatorState_def)

section \<open>Properties of the live capture\<close>

lemma stopLiveRecording_frame [simp]:
  "tasks (stopLiveRecording s) = tasks s"
  "isProcessingRef (stopLiveRecording s) = isProcessingRef s"
  "audioChunksRef (stopLiveRecording s) = audioChunksRef s"
  "attempts (stopLiveRecording s) = attempts s"
  "generatedImages (stopLiveRecording s) = generatedImages s"
  "liveState (stopLiveRecording s) = liveState s"
  "live_error (stopLiveRecording s) = live_error s"
  by (simp_all add: stopLiveRecording_def)

lemma recordingEffect_frame [simp]:
  "tasks (recordingEffect s) = tasks s"
  "isProcessingRef (recordingEffect s) = isProcessingRef s"
  "audioChunksRef (recordingEffect s) = audioChunksRef s"
  "attempts (recordingEffect s) = attempts s"
  "generatedImages (recordingEffect s) = generatedImages s"
  "liveState (recordingEffect s) = liveState s"
  "live_error (recordingEffect s) = live_error s"
  by (simp_all add: recordingEffect_def)

lemma startSummary_frame [simp]:
  "tasks (startSummary s) = tasks s"
  "isProcessingRef (startSummary s) = isProcessingRef s"
  "audioChunksRef (startSummary s) = audioChunksRef s"
  "attempts (startSummary s) = attempts s"
  "generatedImages (startSummary s) = generatedImages s"
  "live_error (startSummary s) = live_error s"
  by (simp_all add: startSummary_def)

lemma setLiveState_frame [simp]:
  "tasks (setLiveState new s) = tasks s"
  "isProcessingRef (setLiveState new s) = isProcessingRef s"
  "audioChunksRef (setLiveState new s) = audioChunksRef s"
  "attempts (setLiveState new s) = attempts s"
  "generatedImages (setLiveState new s) = generatedImages s"
  "live_error (setLiveState new s) = live_error s"
  by (simp_all add: setLiveState_def Let_def)

lemma targetReachedEffect_frame [simp]:
  "tasks (targetReachedEffect s) = tasks s"
  "isProcessingRef (targetReachedEffect s) = isProcessingRef s"
  "audioChunksRef (targetReachedEffect s) = audioChunksRef s"
  "attempts (targetReachedEffect s) = attempts s"
  "generatedImages (targetReachedEffect s) = generatedImages s"
  "live_error (targetReachedEffect s) = live_error s"
  by (simp_all add: targetReachedEffect_def)

lemma finishTask_frame [simp]:
  "audioChunksRef (finishTask i s) = audioChunksRef s"
  "attempts (finishTask i s) = attempts s"
  "generatedImages (finishTask i s) = generatedImages s"
  "liveState (finishTask i s) = liveState s"
  "live_error (finishTask i s) = live_error s"
  "intervalRef (finishTask i s) = intervalRef s"
  "isProcessingRef (finishTask i s) = False"
  "tasks (finishTask i s) = take i (tasks s) @ drop (Suc i) (tasks s)"
  by (simp_all add: finishTask_def)

lemma settle_frame [simp]:
  "audioChunksRef (settle i r now s) = audioChunksRef s"
  "attempts (settle i r now s) = attempts s"
  by (simp_all add: settle_def Let_def split: sum.splits stage.splits)

lemma run_Nil [simp]: "run s [] = s"
  by (simp add: run_def)

lemma run_Cons [simp]: "run s (e # evs) = run (fire s e) evs"
  by (simp add: run_def)

lemma run_append: "run s (evs @ evs') = run (run s evs) evs'"
  by (simp add: run_def)

lemma delivered_append: "delivered (evs @ evs') = delivered evs @ delivered evs'"
  by (induction evs rule: delivered.induct) simp_all

lemma blobSize_newBlob_Nil [simp]: "blobSize (newBlob [] ty) = 0"
  by (simp add: blobSize_def newBlob_def)

lemma blobSize_newBlob_append:
  "blobSize (newBlob (xs @ ys) ty) = blobSize (newBlob xs ty) + blobSize (newBlob ys ty)"
  by (simp add: blobSize_def newBlob_def)

text \<open>A call that finds the flag set returns at once.\<close>

lemma processAudioChunk_busy: "isProcessingRef s \<Longrightarrow> processAudioChunk cl s = s"
  by (simp add: processAudioChunk_def)

lemma tick_busy: "isProcessingRef s \<Longrightarrow> tick s = s"
  by (simp add: tick_def processAudioChunk_busy split: option.splits)

lemma processAudioChunk_starts:
  assumes "\<not> isProcessingRef s" "1024 \<le> blobSize (newBlob (audioChunksRef s) (ustr ''audio/webm''))"
  shows "isProcessingRef (processAudioChunk cl s)"
    and "audioChunksRef (processAudioChunk cl s) = []"
    and "attempts (processAudioChunk cl s) = attempts s @ [audioChunksRef s]"
    and "tasks (processAudioChunk cl s) = tasks s @
           [\<lparr>audioBlob = newBlob (audioChunksRef s) (ustr ''audio/webm''),
             imageIndex = length (cl_generatedImages cl) + 1, t_closure = cl,
             t_stage = AwaitFileToBase64\<rparr>]"
proof -
  from assms(2) have "audioChunksRef s \<noteq> []"
    by auto
  with assms show "isProcessingRef (processAudioChunk cl s)"
    and "audioChunksRef (processAudioChunk cl s) = []"
    and "attempts (processAudioChunk cl s) = attempts s @ [audioChunksRef s]"
    and "tasks (processAudioChunk cl s) = tasks s @
           [\<lparr>audioBlob = newBlob (audioChunksRef s) (ustr ''audio/webm''),
             imageIndex = length (cl_generatedImages cl) + 1, t_closure = cl,
             t_stage = AwaitFileToBase64\<rparr>]"
    by (simp_all add: processAudioChunk_def Let_def)
qed

text \<open>The flag is set exactly while a call is suspended, and at most one is.\<close>

lemma processAudioChunk_exclusive:
  assumes "length (tasks s) \<le> 1" "isProcessingRef s = (tasks s \<noteq> [])"
  shows "length (tasks (processAudioChunk cl s)) \<le> 1
         \<and> isProcessingRef (processAudioChunk cl s) = (tasks (processAudioChunk cl s) \<noteq> [])"
  using assms by (auto simp: processAudioChunk_def Let_def)

lemma settle_exclusive:
  assumes "length (tasks s) \<le> 1" "isProcessingRef s = (tasks s \<noteq> [])"
  shows "length (tasks (settle i r now s)) \<le> 1
         \<and> isProcessingRef (settle i r now s) = (tasks (settle i r now s) \<noteq> [])"
proof (cases "i < length (tasks s)")
  case False
  with assms show ?thesis by (simp add: settle_def)
next
  case True
  with assms(1) have i: "i = 0" and len: "length (tasks s) = 1" by auto
  then obtain t where t: "tasks s = [t]"
    by (cases "tasks s") auto
  with assms(2) have "isProcessingRef s" by simp
  with i t show ?thesis
    by (auto simp: settle_def Let_def split: sum.splits stage.splits)
qed

lemma fire_exclusive:
  assumes "length (tasks s) \<le> 1" "isProcessingRef s = (tasks s \<noteq> [])"
  shows "length (tasks (fire s e)) \<le> 1 \<and> isProcessingRef (fire s e) = (tasks (fire s e) \<noteq> [])"
proof (cases e)
  case Tick
  with assms processAudioChunk_exclusive[OF assms] show ?thesis
    by (simp add: tick_def split: option.splits)
next
  case (Settle i r now)
  with settle_exclusive[OF assms] show ?thesis by simp
qed (use assms in \<open>simp_all add: startFlow_def micGranted_def micDenied_def dataAvailable_def
       handleStop_def summarySettled_def resetFlow_def Let_def split: sum.splits\<close>)

lemma run_exclusive:
  assumes "length (tasks s) \<le> 1" "isProcessingRef s = (tasks s \<noteq> [])"
  shows "length (tasks (run s evs)) \<le> 1 \<and> isProcessingRef (run s evs) = (tasks (run s evs) \<noteq> [])"
  using assms
proof (induction evs arbitrary: s)
  case Nil
  then show ?case by simp
next
  case (Cons e evs)
  from fire_exclusive[OF Cons.prems, of e]
  have "length (tasks (fire s e)) \<le> 1" "isProcessingRef (fire s e) = (tasks (fire s e) \<noteq> [])"
    by simp_all
  from Cons.IH[OF this] show ?case
    by simp
qed

text \<open>Every chunk goes from the buffer into at most one attempt.\<close>

lemma processAudioChunk_chunks:
  "mset (concat (attempts (processAudioChunk cl s))) + mset (audioChunksRef (processAudioChunk cl s))
     \<subseteq># mset (concat (attempts s)) + mset (audioChunksRef s)"
  by (simp add: processAudioChunk_def Let_def)

lemma fire_chunks:
  "mset (concat (attempts (fire s e))) + mset (audioChunksRef (fire s e))
     \<subseteq># mset (concat (attempts s)) + mset (audioChunksRef s) + mset (delivered [e])"
proof (cases e)
  case Tick
  have "mset (concat (attempts (tick s))) + mset (audioChunksRef (tick s))
     \<subseteq># mset (concat (attempts s)) + mset (audioChunksRef s)"
    using processAudioChunk_chunks by (simp add: tick_def split: option.splits)
  with Tick show ?thesis by simp
qed (simp_all add: startFlow_def micGranted_def micDenied_def dataAvailable_def
       handleStop_def summarySettled_def resetFlow_def Let_def split: sum.splits)

lemma run_chunks:
  "mset (concat (attempts (run s evs))) + mset (audioChunksRef (run s evs))
     \<subseteq># mset (concat (attempts s)) + mset (audioChunksRef s) + mset (delivered evs)"
proof (induction evs arbitrary: s)
  case Nil
  show ?case by simp
next
  case (Cons e evs)
  have "mset (concat (attempts (run (fire s e) evs))) + mset (audioChunksRef (run (fire s e) evs))
      \<subseteq># mset (concat (attempts (fire s e))) + mset (audioChunksRef (fire s e)) + mset (delivered evs)"
    by (rule Cons.IH)
  also have "\<dots> \<subseteq># (mset (concat (attempts s)) + mset (audioChunksRef s) + mset (delivered [e]))
                      + mset (delivered evs)"
    using fire_chunks[of s e] by (simp only: subset_mset.add_right_mono)
  also have "\<dots> = mset (concat (attempts s)) + mset (audioChunksRef s) + mset (delivered (e # evs))"
    using delivered_append[of "[e]" evs] by (simp add: ac_simps)
  finally show ?case by simp
qed

text \<open>
  Claim C5. In every run of the component at most one call of \<open>processAudioChunk\<close> is
  suspended at a time; a tick that fires while one is suspended changes nothing (no
  extraction, no new call, hence no image); and every delivered chunk is in the buffer
  or in one attempt, never in two: the chunks of all attempts and of the buffer
  together are among the delivered ones, counted with multiplicity.
\<close>

theorem tick_processing_mutually_exclusive:
  "length (tasks (run initialLive evs)) \<le> 1
   \<and> (tasks (run initialLive evs) \<noteq> [] \<longrightarrow> tick (run initialLive evs) = run initialLive evs)
   \<and> mset (concat (attempts (run initialLive evs))) + mset (audioChunksRef (run initialLive evs))
        \<subseteq># mset (delivered evs)"
proof -
  have init: "length (tasks initialLive) \<le> 1" "isProcessingRef initialLive = (tasks initialLive \<noteq> [])"
    by (simp_all add: initialLive_def)
  from run_exclusive[OF init, of evs] show ?thesis
    using run_chunks[of initialLive evs] tick_busy[of "run initialLive evs"]
    by (auto simp: initialLive_def)
qed


lemma run_firstTick:
  "isProcessingRef (run initialLive firstTick) \<and> length (tasks (run initialLive firstTick)) = 1
   \<and> attempts (run initialLive firstTick) = [[chunk1k]]
   \<and> audioChunksRef (run initialLive firstTick) = []
   \<and> intervalRef (run initialLive firstTick) = Some firstClosure"
  by (simp add: firstTick_def firstClosure_def initialLive_def startFlow_def setLiveState_def recordingEffect_def
      targetReachedEffect_def totalImagesToGenerate_def renderClosure_def micGranted_def
      dataAvailable_def tick_def processAudioChunk_def chunk1k_def blobSize_def newBlob_def
      Let_def)

theorem tick_processing_mutually_exclusive_witness:
  "tasks (run initialLive (firstTick @ [DataAvailable chunk1k])) \<noteq> []
   \<and> tick (run initialLive (firstTick @ [DataAvailable chunk1k]))
       = run initialLive (firstTick @ [DataAvailable chunk1k])
   \<and> attempts (run initialLive (firstTick @ [DataAvailable chunk1k, Tick])) = [[chunk1k]]"
  using tick_processing_mutually_exclusive[of "firstTick @ [DataAvailable chunk1k]"] run_firstTick
  by (auto simp add: run_append dataAvailable_def tick_busy)

text \<open>
  Claim C6 fails on the code. The callback given to \<open>setInterval\<close> is the
  \<open>processAudioChunk\<close> of the render in which the recording effect ran, where
  \<open>generatedImages\<close> is empty, so every call computes the index 1: after two ticks
  that both succeed, the two images are in the list in the order of their ticks and
  the second is also named \<open>image_1.jpeg\<close>.
\<close>

theorem second_live_image_reuses_first_name:
  "map prompt (generatedImages (run initialLive twoImagesDone))
     = [ustr ''a busy street'', ustr ''a quiet park'']
   \<and> map fileName (generatedImages (run initialLive twoImagesDone))
     = [ustr ''image_1.jpeg'', ustr ''image_1.jpeg'']"
  by (simp add: twoImagesDone_def oneImageDone_def firstTick_def initialLive_def startFlow_def
      setLiveState_def recordingEffect_def
      targetReachedEffect_def totalImagesToGenerate_def renderClosure_def micGranted_def
      dataAvailable_def tick_def processAudioChunk_def chunk1k_def blobSize_def newBlob_def
      settle_def finishTask_def liveFileName_def decimal.simps ustr_def
      Let_def)


text \<open>
  Claim C9. When the awaited call of a suspended \<open>processAudioChunk\<close> fails, at
  whichever step, no image is appended, the state and the error message stay as they
  were, the flag is released and the call is gone; the buffer and the timer are
  untouched, and the next tick that finds at least a kilobyte buffered starts a new
  call on it.
\<close>

theorem failed_tick_is_swallowed:
  assumes "i < length (tasks s)"
  shows "generatedImages (settle i (Inl e) now s) = generatedImages s
       \<and> liveState (settle i (Inl e) now s) = liveState s
       \<and> live_error (settle i (Inl e) now s) = live_error s
       \<and> \<not> isProcessingRef (settle i (Inl e) now s)
       \<and> tasks (settle i (Inl e) now s) = take i (tasks s) @ drop (Suc i) (tasks s)
       \<and> audioChunksRef (settle i (Inl e) now s) = audioChunksRef s
       \<and> intervalRef (settle i (Inl e) now s) = intervalRef s
       \<and> (intervalRef s = Some cl
            \<and> 1024 \<le> blobSize (newBlob (audioChunksRef s) (ustr ''audio/webm''))
          \<longrightarrow> isProcessingRef (tick (settle i (Inl e) now s))
            \<and> attempts (tick (settle i (Inl e) now s)) = attempts s @ [audioChunksRef s]
            \<and> tasks (tick (settle i (Inl e) now s)) = tasks (settle i (Inl e) now s) @
                 [\<lparr>audioBlob = newBlob (audioChunksRef s) (ustr ''audio/webm''),
                   imageIndex = length (cl_generatedImages cl) + 1, t_closure = cl,
                   t_stage = AwaitFileToBase64\<rparr>])"
proof -
  have st: "settle i (Inl e) now s = finishTask i s"
    using assms by (simp add: settle_def)
  have "\<not> isProcessingRef (finishTask i s)"
    by simp
  from processAudioChunk_starts[OF this, of cl] show ?thesis
    by (simp add: st tick_def)
qed

theorem failed_tick_is_swallowed_witness:
  "0 < length (tasks (run initialLive firstTick))
   \<and> \<not> isProcessingRef (settle 0 (Inl (Some (ustr ''blocked''))) 1000 (run initialLive firstTick))
   \<and> tasks (settle 0 (Inl (Some (ustr ''blocked''))) 1000 (run initialLive firstTick)) = []
   \<and> generatedImages (settle 0 (Inl (Some (ustr ''blocked''))) 1000 (run initialLive firstTick))
       = generatedImages (run initialLive firstTick)"
  using failed_tick_is_swallowed[of 0 "run initialLive firstTick" "Some (ustr ''blocked'')" 1000] run_firstTick
  by simp

lemma fire_quiet_buffer:
  "quiet e \<Longrightarrow> prefix (audioChunksRef s) (audioChunksRef (fire s e))"
  by (cases e) (simp_all add: dataAvailable_def)

lemma run_quiet_buffer:
  "list_all quiet evs \<Longrightarrow> prefix (audioChunksRef s) (audioChunksRef (run s evs))"
proof (induction evs arbitrary: s)
  case Nil
  show ?case by simp
next
  case (Cons e evs)
  then have "prefix (audioChunksRef s) (audioChunksRef (fire s e))"
    and "prefix (audioChunksRef (fire s e)) (audioChunksRef (run (fire s e) evs))"
    by (simp_all add: fire_quiet_buffer)
  then show ?case
    by (auto intro: prefix_order.trans)
qed

lemma prefix_blobSize:
  "prefix xs ys \<Longrightarrow> blobSize (newBlob xs ty) \<le> blobSize (newBlob ys ty)"
  by (auto simp: prefix_def blobSize_newBlob_append)

lemma blobSize_chunks: "blobSize (newBlob [chunk1k, chunk1k] ty) = 2048"
  by (simp add: blobSize_def newBlob_def chunk1k_def)

lemma chunk1k_size: "blobSize chunk1k = 1024"
  by (simp add: blobSize_def chunk1k_def)

lemma busyState_facts:
  "isProcessingRef busyState" "audioChunksRef busyState = [chunk1k]"
  "attempts busyState = [[chunk1k]]" "intervalRef busyState = Some firstClosure"
  "length (tasks busyState) = 1"
  using run_firstTick
  by (simp_all add: busyState_def run_append dataAvailable_def chunk1k_size)

lemma laterEvents_facts:
  "\<not> isProcessingRef (run busyState laterEvents)"
  "audioChunksRef (run busyState laterEvents) = [chunk1k, chunk1k]"
  "attempts (run busyState laterEvents) = [[chunk1k]]"
  "intervalRef (run busyState laterEvents) = Some firstClosure"
  using busyState_facts
  by (cases "tasks busyState"; simp add: laterEvents_def dataAvailable_def chunk1k_size settle_def)+

lemma processAudioChunk_discards:
  assumes "\<not> isProcessingRef s" "blobSize (newBlob (audioChunksRef s) (ustr ''audio/webm'')) < 1024"
  shows "audioChunksRef (processAudioChunk cl s) = []"
    and "attempts (processAudioChunk cl s) = attempts s"
    and "tasks (processAudioChunk cl s) = tasks s"
    and "\<not> isProcessingRef (processAudioChunk cl s)"
  using assms by (simp_all add: processAudioChunk_def Let_def)

lemma chunk500_size: "blobSize chunk500 = 500"
  by (simp add: blobSize_def chunk500_def)

lemma blobSize_chunk500: "blobSize (newBlob [chunk500] ty) = 500"
  by (simp add: blobSize_def newBlob_def chunk500_def)

lemma chunk500_not_chunk1k: "chunk500 \<noteq> chunk1k"
  using chunk500_size chunk1k_size by auto

lemma busySmall_facts:
  "isProcessingRef busySmall" "audioChunksRef busySmall = [chunk500]"
  "attempts busySmall = [[chunk1k]]" "intervalRef busySmall = Some firstClosure"
  "length (tasks busySmall) = 1"
  using run_firstTick
  by (simp_all add: busySmall_def run_append dataAvailable_def chunk500_size)

lemma busySmall_failed:
  "\<not> isProcessingRef (settle 0 (Inl None) 1000 busySmall)"
  "audioChunksRef (settle 0 (Inl None) 1000 busySmall) = [chunk500]"
  "attempts (settle 0 (Inl None) 1000 busySmall) = [[chunk1k]]"
  "intervalRef (settle 0 (Inl None) 1000 busySmall) = Some firstClosure"
  "tasks (settle 0 (Inl None) 1000 busySmall) = []"
  using busySmall_facts
  by (simp_all add: settle_def)

text \<open>
  Claim C10, as stated, fails. A tick is skipped while 500 bytes are buffered; the
  suspended call then fails, and the next tick, which runs with the flag clear,
  empties the buffer and drops the blob as too small: the skipped audio is in no
  attempt and no call was started for it.
\<close>

theorem small_skipped_buffer_is_discarded:
  "isProcessingRef busySmall \<and> audioChunksRef busySmall = [chunk500]
   \<and> tick busySmall = busySmall
   \<and> \<not> isProcessingRef (run busySmall [Tick, Settle 0 (Inl None) 1000])
   \<and> audioChunksRef (run busySmall [Tick, Settle 0 (Inl None) 1000, Tick]) = []
   \<and> attempts (run busySmall [Tick, Settle 0 (Inl None) 1000, Tick]) = [[chunk1k]]
   \<and> tasks (run busySmall [Tick, Settle 0 (Inl None) 1000, Tick]) = []
   \<and> chunk500 \<notin> set (concat (attempts (run busySmall [Tick, Settle 0 (Inl None) 1000, Tick])))"
proof -
  have skip: "tick busySmall = busySmall"
    using busySmall_facts(1) by (rule tick_busy)
  have small: "blobSize (newBlob (audioChunksRef (settle 0 (Inl None) 1000 busySmall))
                  (ustr ''audio/webm'')) < 1024"
    by (simp add: busySmall_facts blobSize_chunk500)
  have next_tick: "tick (settle 0 (Inl None) 1000 busySmall)
      = processAudioChunk firstClosure (settle 0 (Inl None) 1000 busySmall)"
    by (simp add: tick_def busySmall_failed)
  show ?thesis
    using processAudioChunk_discards[OF busySmall_failed(1) small, of firstClosure]
      busySmall_facts busySmall_failed chunk500_not_chunk1k
    by (simp add: skip next_tick)
qed

text \<open>
  Claim C10, amended. A tick that finds the flag set returns the state unchanged.
  While only audio arrives and awaited calls settle, the buffer grows at its end
  and still starts with the chunks of the skipped tick. The next tick that runs with
  the flag clear and the timer still registered empties the buffer: with at least
  1024 bytes buffered the whole buffer, the skipped chunks included, goes into the
  blob of a new call; with less the blob is dropped and no call starts. When the
  timer was cleared meanwhile, a tick does nothing.
\<close>

theorem skipped_tick_keeps_buffer:
  assumes "isProcessingRef s" and "list_all quiet evs"
  shows "tick s = s
       \<and> prefix (audioChunksRef s) (audioChunksRef (run s evs))
       \<and> blobSize (newBlob (audioChunksRef s) (ustr ''audio/webm''))
            \<le> blobSize (newBlob (audioChunksRef (run s evs)) (ustr ''audio/webm''))
       \<and> (\<not> isProcessingRef (run s evs) \<and> intervalRef (run s evs) = Some cl
            \<and> 1024 \<le> blobSize (newBlob (audioChunksRef (run s evs)) (ustr ''audio/webm''))
          \<longrightarrow> attempts (tick (run s evs)) = attempts (run s evs) @ [audioChunksRef (run s evs)]
            \<and> audioChunksRef (tick (run s evs)) = []
            \<and> tasks (tick (run s evs)) = tasks (run s evs) @
                 [\<lparr>audioBlob = newBlob (audioChunksRef (run s evs)) (ustr ''audio/webm''),
                   imageIndex = length (cl_generatedImages cl) + 1, t_closure = cl,
                   t_stage = AwaitFileToBase64\<rparr>])
       \<and> (\<not> isProcessingRef (run s evs) \<and> intervalRef (run s evs) = Some cl
            \<and> blobSize (newBlob (audioChunksRef (run s evs)) (ustr ''audio/webm'')) < 1024
          \<longrightarrow> attempts (tick (run s evs)) = attempts (run s evs)
            \<and> audioChunksRef (tick (run s evs)) = []
            \<and> tasks (tick (run s evs)) = tasks (run s evs)
            \<and> \<not> isProcessingRef (tick (run s evs)))
       \<and> (intervalRef (run s evs) = None \<longrightarrow> tick (run s evs) = run s evs)"
  using tick_busy[OF assms(1)] run_quiet_buffer[OF assms(2), of s]
    processAudioChunk_starts[of "run s evs" cl]
    processAudioChunk_discards[of "run s evs" cl]
  by (simp add: prefix_blobSize tick_def)

lemma busySmall_quiet:
  "run busySmall [Settle 0 (Inl None) 1000] = settle 0 (Inl None) 1000 busySmall"
  by simp

theorem skipped_tick_keeps_buffer_witness:
  "isProcessingRef busyState \<and> list_all quiet laterEvents
   \<and> tick busyState = busyState
   \<and> audioChunksRef busyState = [chunk1k]
   \<and> attempts (tick (run busyState laterEvents)) = [[chunk1k], [chunk1k, chunk1k]]
   \<and> isProcessingRef busySmall \<and> list_all quiet [Settle 0 (Inl None) 1000]
   \<and> attempts (tick (run busySmall [Settle 0 (Inl None) 1000])) = [[chunk1k]]
   \<and> audioChunksRef (tick (run busySmall [Settle 0 (Inl None) 1000])) = []"
proof -
  have big: "isProcessingRef busyState \<and> list_all quiet laterEvents
   \<and> tick busyState = busyState
   \<and> audioChunksRef busyState = [chunk1k]
   \<and> attempts (tick (run busyState laterEvents)) = [[chunk1k], [chunk1k, chunk1k]]"
    using skipped_tick_keeps_buffer[of busyState laterEvents firstClosure] busyState_facts laterEvents_facts
    by (simp add: blobSize_chunks) (simp add: laterEvents_def)
  have small: "isProcessingRef busySmall \<and> list_all quiet [Settle 0 (Inl None) 1000]
   \<and> attempts (tick (run busySmall [Settle 0 (Inl None) 1000])) = [[chunk1k]]
   \<and> audioChunksRef (tick (run busySmall [Settle 0 (Inl None) 1000])) = []"
    using skipped_tick_keeps_buffer[of busySmall "[Settle 0 (Inl None) 1000]" firstClosure]
      busySmall_facts busySmall_failed
    by (simp add: busySmall_quiet blobSize_chunk500)
  from big small show ?thesis
    by simp
qed

section \<open>Failure of the summary\<close>

lemma setLiveState_other [simp]:
  "summaryRef (setLiveState new s) = summaryRef s"
  "new \<noteq> L_GENERATING \<Longrightarrow> liveState (setLiveState new s) = new"
  by (auto simp: setLiveState_def stopLiveRecording_def recordingEffect_def startSummary_def Let_def)

lemma generateImage_envNoSummary:
  "generateImage (generateContent envNoSummary k) p f = Inr (ustr ''AAAA'')"
  by (simp add: envNoSummary_def generateImage_env0)

lemma processSegments_envNoSummary:
  "\<exists>imgs s2 calls2.
     processSegments envNoSummary file0 (numSegments (Finite 121))
        (makeSegments file0 (numSegments (Finite 121))) 0 []
        (resetState\<lparr>storyboardState := SB_PROCESSING,
                     progressMessage := ustr ''Analyzing audio duration...''\<rparr>, [GetAudioDuration])
      = (Inr imgs, s2, calls2)"
proof (rule processSegments_succeeds)
  show "\<exists>x. fileToBase64 envNoSummary k b = Inr x" for k b
    by (simp add: envNoSummary_def env0_def)
  show "\<exists>x. generatePromptFromAudioSegment envNoSummary k a m j (numSegments (Finite 121)) = Inr x"
    for k a m j
    by (simp add: envNoSummary_def env0_def)
  show "\<exists>x. generateImage (generateContent envNoSummary k) p RaphaeliteDigitalArt = Inr x" for k p
    by (simp add: generateImage_envNoSummary)
qed

text \<open>
  Claim C3, as stated, fails for the storyboard: when all four images were generated
  and only the summary call fails, \<open>processFile\<close> ends in the error state.
\<close>

theorem storyboard_summary_failure_is_fatal:
  "storyboardState (fst (processFile envNoSummary file0)) = SB_ERROR
   \<and> sb_error (fst (processFile envNoSummary file0)) = Some (ustr ''quota'')
   \<and> length (images (fst (processFile envNoSummary file0))) = 4
   \<and> last (snd (processFile envNoSummary file0)) = GenerateStorySummaryFromAudio"
proof -
  from processSegments_envNoSummary obtain imgs s2 calls2 where ps:
    "processSegments envNoSummary file0 (numSegments (Finite 121))
        (makeSegments file0 (numSegments (Finite 121))) 0 []
        (resetState\<lparr>storyboardState := SB_PROCESSING,
                     progressMessage := ustr ''Analyzing audio duration...''\<rparr>, [GetAudioDuration])
      = (Inr imgs, s2, calls2)"
    by blast
  have len: "length imgs = 4"
    using processSegments_length[OF ps] by (simp add: length_makeSegments numSegments_def)
  have im: "images s2 = imgs"
    using processSegments_images[OF ps] by (simp add: resetState_def)
  have "processFile envNoSummary file0 =
      (sb_catch (s2\<lparr>progressMessage := ustr ''Generating story summary...''\<rparr>) (Some (ustr ''quota'')),
       calls2 @ [FileToBase64 (Blob.truncate file0), GenerateStorySummaryFromAudio])"
    by (subst processFile_accepted[OF _ _ _ ps])
       (simp_all add: file0_size MIN_FILE_SIZE_def MAX_FILE_SIZE_def MAX_FILE_SIZE_MB_def
          envNoSummary_def env0_def)
  then show ?thesis
    using len im by (simp add: sb_catch_def message_or_def ustr_def)
qed

text \<open>
  Claim C3, amended. In the live capture a failed summary call ends in \<open>FINISHED\<close>
  with the placeholder summary and a message, the images kept. In the storyboard a
  failed summary call, after every segment produced its image, ends in \<open>ERROR\<close> with
  the failure's message; the images stay in the list.
\<close>

theorem summary_failure_outcomes:
  "liveState (summarySettled (Inl e) s) = L_FINISHED
   \<and> summaryRef (summarySettled (Inl e) s) = Some (ustr ''Summary generation failed.'')
   \<and> live_error (summarySettled (Inl e) s)
        = Some (ustr ''Could not generate summary. You can still download the images.'')
   \<and> generatedImages (summarySettled (Inl e) s) = generatedImages s
   \<and> (MIN_FILE_SIZE \<le> blobSize f \<and> blobSize f \<le> MAX_FILE_SIZE
        \<and> getAudioDuration env 0 f = Some d
        \<and> processSegments env f (numSegments d) (makeSegments f (numSegments d)) 0 []
             (resetState\<lparr>storyboardState := SB_PROCESSING,
                          progressMessage := ustr ''Analyzing audio duration...''\<rparr>,
              [GetAudioDuration]) = (Inr imgs, s2, calls2)
        \<and> fileToBase64 env (length calls2) (Blob.truncate f) = Inr b
        \<and> generateStorySummaryFromAudio env (Suc (length calls2)) b (mimeType f) = Inl err
      \<longrightarrow> storyboardState (fst (processFile env f)) = SB_ERROR
        \<and> sb_error (fst (processFile env f))
             = Some (message_or err (ustr ''An unknown error occurred during processing.''))
        \<and> images (fst (processFile env f)) = imgs
        \<and> length imgs = numSegments d)"
proof -
  have live: "liveState (summarySettled (Inl e) s) = L_FINISHED
   \<and> summaryRef (summarySettled (Inl e) s) = Some (ustr ''Summary generation failed.'')
   \<and> live_error (summarySettled (Inl e) s)
        = Some (ustr ''Could not generate summary. You can still download the images.'')
   \<and> generatedImages (summarySettled (Inl e) s) = generatedImages s"
    by (simp add: summarySettled_def)
  have sb: "storyboardState (fst (processFile env f)) = SB_ERROR
        \<and> sb_error (fst (processFile env f))
             = Some (message_or err (ustr ''An unknown error occurred during processing.''))
        \<and> images (fst (processFile env f)) = imgs
        \<and> length imgs = numSegments d"
    if a: "MIN_FILE_SIZE \<le> blobSize f" "blobSize f \<le> MAX_FILE_SIZE"
        "getAudioDuration env 0 f = Some d"
      and ps: "processSegments env f (numSegments d) (makeSegments f (numSegments d)) 0 []
             (resetState\<lparr>storyboardState := SB_PROCESSING,
                          progressMessage := ustr ''Analyzing audio duration...''\<rparr>,
              [GetAudioDuration]) = (Inr imgs, s2, calls2)"
      and b: "fileToBase64 env (length calls2) (Blob.truncate f) = Inr b"
      and e: "generateStorySummaryFromAudio env (Suc (length calls2)) b (mimeType f) = Inl err"
  proof -
    have "length imgs = numSegments d"
      using processSegments_length[OF ps] by (simp add: length_makeSegments)
    moreover have "images s2 = imgs"
      using processSegments_images[OF ps] by (simp add: resetState_def)
    ultimately show ?thesis
      by (simp add: processFile_accepted[OF a ps b] e sb_catch_def)
  qed
  from live sb show ?thesis
    by blast
qed

theorem summary_failure_outcomes_witness:
  "MIN_FILE_SIZE \<le> blobSize file0 \<and> blobSize file0 \<le> MAX_FILE_SIZE
   \<and> getAudioDuration envNoSummary 0 file0 = Some (Finite 121)
   \<and> storyboardState (fst (processFile envNoSummary file0)) = SB_ERROR
   \<and> sb_error (fst (processFile envNoSummary file0)) = Some (ustr ''quota'')
   \<and> length (images (fst (processFile envNoSummary file0))) = 4"
proof -
  from processSegments_envNoSummary obtain imgs s2 calls2 where ps:
    "processSegments envNoSummary file0 (numSegments (Finite 121))
        (makeSegments file0 (numSegments (Finite 121))) 0 []
        (resetState\<lparr>storyboardState := SB_PROCESSING,
                     progressMessage := ustr ''Analyzing audio duration...''\<rparr>, [GetAudioDuration])
      = (Inr imgs, s2, calls2)"
    by blast
  have size: "MIN_FILE_SIZE \<le> blobSize file0" "blobSize file0 \<le> MAX_FILE_SIZE"
    by (simp_all add: file0_size MIN_FILE_SIZE_def MAX_FILE_SIZE_def MAX_FILE_SIZE_MB_def)
  have calls: "getAudioDuration envNoSummary 0 file0 = Some (Finite 121)"
    "fileToBase64 envNoSummary (length calls2) (Blob.truncate file0) = Inr (ustr ''QUJD'')"
    "generateStorySummaryFromAudio envNoSummary (Suc (length calls2)) (ustr ''QUJD'') (mimeType file0)
       = Inl (Some (ustr ''quota''))"
    by (simp_all add: envNoSummary_def env0_def)
  have n: "numSegments (Finite 121) = 4"
    by (simp add: numSegments_def)
  have m: "message_or (Some (ustr ''quota'')) (ustr ''An unknown error occurred during processing.'')
        = ustr ''quota''"
    by (simp add: message_or_def ustr_def)
  show ?thesis
    using summary_failure_outcomes[of _ _ file0 envNoSummary "Finite 121" imgs s2 calls2 "ustr ''QUJD''"
        "Some (ustr ''quota'')"] ps size calls
    by (simp add: n m)
qed

end
